theory Spec2Isabelle
  imports Complex_Main "HOL-Library.AList"
begin

section \<open>Python primitives used by the Kinetics loader\<close>

text \<open>
  The loader \<^verbatim>\<open>corr_net/datasets/kinetics.py\<close> is embedded function by function.
  Every exception the Python can raise is a value of \<open>error\<close>; a computation that may
  raise has the type \<open>error + 'a\<close>, with \<open>Inl\<close> carrying the exception.
\<close>

datatype error =
  AssertionError | IndexError | KeyError | ValueError | ZeroDivisionError
  | AttributeError | RuntimeError | NotImplementedError | Exception

definition ebind :: "error + 'a \<Rightarrow> ('a \<Rightarrow> error + 'b) \<Rightarrow> error + 'b" where
  "ebind m k = (case m of Inl e \<Rightarrow> Inl e | Inr x \<Rightarrow> k x)"

text \<open>\<^verbatim>\<open>xs[i]\<close> on a list: an index in \<open>[-len, len)\<close> is accepted, negative ones
  counting from the end; anything else raises IndexError.\<close>

definition list_getitem :: "'a list \<Rightarrow> int \<Rightarrow> error + 'a" where
  "list_getitem xs i =
     (if 0 \<le> i \<and> i < int (length xs) then Inr (xs ! nat i)
      else if - int (length xs) \<le> i \<and> i < 0 then Inr (xs ! nat (int (length xs) + i))
      else Inl IndexError)"

text \<open>\<^verbatim>\<open>d[k]\<close> on a dict, kept as an association list in insertion order.\<close>

definition dict_getitem :: "('k \<times> 'v) list \<Rightarrow> 'k \<Rightarrow> error + 'v" where
  "dict_getitem d k = (case map_of d k of None \<Rightarrow> Inl KeyError | Some v \<Rightarrow> Inr v)"

definition dict_setitem :: "('k \<times> 'v) list \<Rightarrow> 'k \<Rightarrow> 'v \<Rightarrow> ('k \<times> 'v) list" where
  "dict_setitem d k v = AList.update k v d"

text \<open>\<^verbatim>\<open>a // b\<close> and \<^verbatim>\<open>a % b\<close> on Python integers: floor division, the
  remainder taking the sign of the divisor, ZeroDivisionError on a zero divisor.\<close>

definition py_floordiv :: "int \<Rightarrow> int \<Rightarrow> error + int" where
  "py_floordiv a b = (if b = 0 then Inl ZeroDivisionError else Inr (a div b))"

definition py_mod :: "int \<Rightarrow> int \<Rightarrow> error + int" where
  "py_mod a b = (if b = 0 then Inl ZeroDivisionError else Inr (a mod b))"

text \<open>\<^verbatim>\<open>range(n)\<close>: the integers \<open>0, ..., n - 1\<close>, empty when \<open>n \<le> 0\<close>.\<close>

definition py_range :: "int \<Rightarrow> int list" where
  "py_range n = map int [0 ..< nat n]"

subsection \<open>Strings\<close>

text \<open>ASCII white space as \<^verbatim>\<open>str.strip()\<close> and \<^verbatim>\<open>int()\<close> see it.\<close>

definition is_space :: "char \<Rightarrow> bool" where
  "is_space c = (let n = (of_char c :: nat) in (9 \<le> n \<and> n \<le> 13) \<or> (28 \<le> n \<and> n \<le> 32))"

definition str_strip :: "string \<Rightarrow> string" where
  "str_strip s = rev (dropWhile is_space (rev (dropWhile is_space s)))"

text \<open>\<^verbatim>\<open>s.split(sep)\<close> with a separator string: cut at every occurrence of
  \<open>sep\<close>, scanning from the left; an empty separator raises ValueError.\<close>

fun str_split_aux :: "string \<Rightarrow> string \<Rightarrow> string \<Rightarrow> string list" where
  "str_split_aux sep acc [] = [rev acc]"
| "str_split_aux sep acc (c # cs) =
     (if sep \<noteq> [] \<and> take (length sep) (c # cs) = sep
      then rev acc # str_split_aux sep [] (drop (length sep) (c # cs))
      else str_split_aux sep (c # acc) cs)"

definition str_split :: "string \<Rightarrow> string \<Rightarrow> error + string list" where
  "str_split s sep = (if sep = [] then Inl ValueError else Inr (str_split_aux sep [] s))"

text \<open>\<^verbatim>\<open>int(s)\<close> on a string: surrounding white space, an optional sign, then
  decimal digits, single underscores allowed between digits.\<close>

definition is_digit :: "char \<Rightarrow> bool" where
  "is_digit c = (let n = (of_char c :: nat) in 48 \<le> n \<and> n \<le> 57)"

fun no_double_underscore :: "string \<Rightarrow> bool" where
  "no_double_underscore (a # b # cs) =
     (\<not> (a = CHR ''_'' \<and> b = CHR ''_'') \<and> no_double_underscore (b # cs))"
| "no_double_underscore cs = True"

definition valid_digits :: "string \<Rightarrow> bool" where
  "valid_digits s =
     (s \<noteq> [] \<and> is_digit (hd s) \<and> is_digit (last s)
      \<and> list_all (\<lambda>c. is_digit c \<or> c = CHR ''_'') s \<and> no_double_underscore s)"

definition digits_value :: "string \<Rightarrow> int" where
  "digits_value s = foldl (\<lambda>v c. 10 * v + (int (of_char c) - 48)) 0 (filter is_digit s)"

definition py_int :: "string \<Rightarrow> error + int" where
  "py_int s =
     (let t = str_strip s;
          neg = (t \<noteq> [] \<and> hd t = CHR ''-'');
          body = (if t \<noteq> [] \<and> (hd t = CHR ''-'' \<or> hd t = CHR ''+'') then tl t else t)
      in if valid_digits body
         then Inr (if neg then - digits_value body else digits_value body)
         else Inl ValueError)"

text \<open>\<^verbatim>\<open>os.path.join\<close> on POSIX: an absolute component discards what precedes
  it; otherwise components are joined with one slash.\<close>

definition path_join2 :: "string \<Rightarrow> string \<Rightarrow> string" where
  "path_join2 a b =
     (if b \<noteq> [] \<and> hd b = CHR ''/'' then b
      else if a = [] \<or> last a = CHR ''/'' then a @ b
      else a @ ''/'' @ b)"

definition os_path_join :: "string \<Rightarrow> string list \<Rightarrow> string" where
  "os_path_join a ps = foldl path_join2 a ps"

text \<open>\<^verbatim>\<open>template.format(args)\<close> with automatic numbering: every \<^verbatim>\<open>{}\<close> field
  takes the next positional argument, and a field with no argument left raises
  IndexError. Only this arity check matters to the loader's control flow, so the
  rendered text is not kept.\<close>

fun format_fields :: "string \<Rightarrow> nat" where
  "format_fields (a # b # cs) =
     (if a = CHR ''{'' \<and> b = CHR ''}'' then Suc (format_fields cs)
      else format_fields (b # cs))"
| "format_fields cs = 0"

definition str_format :: "string \<Rightarrow> nat \<Rightarrow> error + unit" where
  "str_format template nargs =
     (if format_fields template \<le> nargs then Inr () else Inl IndexError)"

section \<open>Configuration and the dataset object\<close>

text \<open>
  The configuration node is read only through the fields below. Floating-point
  values (the short-cycle factors, the normalisation constants) have the abstract
  type \<open>'f\<close>; the operations on them are passed in \<open>float_ops\<close>, so that nothing
  proved here depends on how floats round.
\<close>

record 'f cfg =
  DATA_USE_FRAME_SEQUENCES :: bool
  DATA_PATH_TO_DATA_DIR :: string
  DATA_PATH_LABEL_SEPARATOR :: string
  DATA_PATH_PREFIX :: string
  DATA_TRAIN_JITTER_SCALES :: "int list"
  DATA_TRAIN_CROP_SIZE :: int
  DATA_TEST_CROP_SIZE :: int
  DATA_SAMPLING_RATE :: int
  DATA_NUM_FRAMES :: int
  DATA_TARGET_FPS :: int
  DATA_DECODING_BACKEND :: string
  DATA_MEAN :: "'f list"
  DATA_STD :: "'f list"
  DATA_RANDOM_FLIP :: bool
  DATA_INV_UNIFORM_SAMPLE :: bool
  DATA_LOADER_ENABLE_MULTI_THREAD_DECODE :: bool
  MULTIGRID_SHORT_CYCLE_FACTORS :: "'f list"
  MULTIGRID_DEFAULT_S :: int
  MULTIGRID_LONG_CYCLE_SAMPLING_RATE :: int
  TEST_NUM_SPATIAL_CROPS :: int
  TEST_NUM_ENSEMBLE_VIEWS :: int

record 'f float_ops =
  float_of_int :: "int \<Rightarrow> 'f"
  float_mul :: "'f \<Rightarrow> 'f \<Rightarrow> 'f"
  float_div :: "'f \<Rightarrow> 'f \<Rightarrow> 'f"
  float_round :: "'f \<Rightarrow> int"

type_synonym meta = "(string \<times> int) list"

text \<open>The attributes of a \<^verbatim>\<open>Kinetics\<close> object. \<open>num_clips\<close> is \<open>None\<close> while the
  attribute has not been assigned.\<close>

record 'f dataset =
  mode :: string
  cfg :: "'f cfg"
  video_meta :: "(int \<times> meta) list"
  num_retries :: int
  num_clips :: "int option"
  path_to_videos :: "string list"
  labels :: "int list"
  spatial_temporal_idx :: "int list"

text \<open>The file system as the manifest loader sees it: a path is absent, or holds
  the lines that \<^verbatim>\<open>f.read().splitlines()\<close> returns.\<close>

type_synonym filesystem = "string \<Rightarrow> string list option"

section \<open>Construction: \<^verbatim>\<open>__init__\<close> and \<^verbatim>\<open>_construct_loader\<close>\<close>

definition manifest_path :: "'f cfg \<Rightarrow> string \<Rightarrow> string" where
  "manifest_path c m =
     (if DATA_USE_FRAME_SEQUENCES c
      then os_path_join (DATA_PATH_TO_DATA_DIR c) [''BharatDSL_'' @ m @ ''.csv'']
      else os_path_join (DATA_PATH_TO_DATA_DIR c) [m @ ''.csv''])"

text \<open>One manifest line is unpacked into the clip path, the label text and (for
  frame sequences) the frame-count text; a wrong number of fields raises ValueError
  as the tuple unpacking does.\<close>

definition parse_line :: "'f cfg \<Rightarrow> string \<Rightarrow> error + (string \<times> string \<times> string option)" where
  "parse_line c path_label =
     (if DATA_USE_FRAME_SEQUENCES c
      then ebind (str_split (str_strip path_label) (DATA_PATH_LABEL_SEPARATOR c))
        (\<lambda>fields. case fields of
            [set_name, class_name, class_sample, num_frames, label] \<Rightarrow>
              Inr (os_path_join ''BharatDSL_dataset'' [set_name, class_name, class_sample],
                   label, Some num_frames)
          | _ \<Rightarrow> Inl ValueError)
      else ebind (str_split path_label (DATA_PATH_LABEL_SEPARATOR c))
        (\<lambda>fields. case fields of
            [path, label] \<Rightarrow> Inr (path, label, None)
          | _ \<Rightarrow> Inl ValueError))"

text \<open>The body of the inner loop \<^verbatim>\<open>for idx in range(self._num_clips)\<close>.\<close>

definition add_clip ::
  "'f dataset \<Rightarrow> int \<Rightarrow> int \<Rightarrow> string \<Rightarrow> string \<Rightarrow> string option \<Rightarrow> int \<Rightarrow> error + 'f dataset" where
  "add_clip self clip_idx n path label num_frames idx =
     (let s1 = self\<lparr>path_to_videos :=
                 path_to_videos self @ [os_path_join (DATA_PATH_PREFIX (cfg self)) [path]]\<rparr>
      in ebind (py_int label) (\<lambda>l.
         let s2 = s1\<lparr>labels := labels s1 @ [l]\<rparr>;
             s3 = s2\<lparr>spatial_temporal_idx := spatial_temporal_idx s2 @ [idx]\<rparr>;
             key = clip_idx * n + idx;
             s4 = s3\<lparr>video_meta := dict_setitem (video_meta s3) key []\<rparr>
         in if DATA_USE_FRAME_SEQUENCES (cfg self)
            then (case num_frames of
                    None \<Rightarrow> Inl ValueError
                  | Some nf \<Rightarrow> ebind (py_int nf) (\<lambda>v.
                      ebind (dict_getitem (video_meta s4) key) (\<lambda>m.
                        Inr (s4\<lparr>video_meta :=
                               dict_setitem (video_meta s4) key
                                 (dict_setitem m ''num_frames'' v)\<rparr>))))
            else Inr s4))"

fun add_clips ::
  "'f dataset \<Rightarrow> int \<Rightarrow> int \<Rightarrow> string \<Rightarrow> string \<Rightarrow> string option \<Rightarrow> int list \<Rightarrow> error + 'f dataset" where
  "add_clips self clip_idx n path label num_frames [] = Inr self"
| "add_clips self clip_idx n path label num_frames (idx # idxs) =
     ebind (add_clip self clip_idx n path label num_frames idx)
       (\<lambda>self'. add_clips self' clip_idx n path label num_frames idxs)"

text \<open>The outer loop \<^verbatim>\<open>for clip_idx, path_label in enumerate(...)\<close>.\<close>

fun read_lines :: "'f dataset \<Rightarrow> int \<Rightarrow> string list \<Rightarrow> error + 'f dataset" where
  "read_lines self clip_idx [] = Inr self"
| "read_lines self clip_idx (path_label # rest) =
     ebind (parse_line (cfg self) path_label) (\<lambda>(path, label, num_frames).
       case num_clips self of
         None \<Rightarrow> Inl AttributeError
       | Some n \<Rightarrow>
           ebind (add_clips self clip_idx n path label num_frames (py_range n))
             (\<lambda>self'. read_lines self' (clip_idx + 1) rest))"

definition construct_loader :: "filesystem \<Rightarrow> 'f dataset \<Rightarrow> error + 'f dataset" where
  "construct_loader fs self =
     (case fs (manifest_path (cfg self) (mode self)) of
        None \<Rightarrow> Inl AssertionError
      | Some file_lines \<Rightarrow>
          ebind (read_lines
                   (self\<lparr>path_to_videos := [], labels := [], spatial_temporal_idx := []\<rparr>)
                   0 file_lines)
            (\<lambda>self'. if length (path_to_videos self') > 0 then Inr self'
                      else Inl AssertionError))"

definition Kinetics_init :: "'f cfg \<Rightarrow> string \<Rightarrow> int \<Rightarrow> filesystem \<Rightarrow> error + 'f dataset" where
  "Kinetics_init c m retries fs =
     (if m \<notin> set [''train'', ''val'', ''test''] then Inl AssertionError
      else
        let self = \<lparr>mode = m, cfg = c, video_meta = [], num_retries = retries,
                    num_clips = None, path_to_videos = [], labels = [],
                    spatial_temporal_idx = []\<rparr>;
            self = (if mode self \<in> set [''train'', ''val'', ''test'']
                    then self\<lparr>num_clips := Some 1\<rparr> else self)
        in construct_loader fs self)"

text \<open>\<^verbatim>\<open>__len__\<close>.\<close>

definition len :: "'f dataset \<Rightarrow> int" where
  "len self = int (length (path_to_videos self))"

section \<open>Sampling parameters: the first half of \<^verbatim>\<open>__getitem__\<close>\<close>

text \<open>The argument of \<^verbatim>\<open>__getitem__\<close>: an index, or the pair of an index and a
  short-cycle index when short cycles are used.\<close>

datatype item_index = Plain int | WithShortCycle int int

record params =
  temporal_sample_index :: int
  spatial_sample_index :: int
  min_scale :: int
  max_scale :: int
  crop_size :: int

text \<open>Lines 166 to 218: the branch on the mode that fixes the sampling indices, the
  scales and the crop size.\<close>

definition sampling_params ::
  "'f float_ops \<Rightarrow> 'f dataset \<Rightarrow> int \<Rightarrow> int option \<Rightarrow> error + params" where
  "sampling_params fo self index short_cycle_idx =
     (let c = cfg self in
      if mode self \<in> set [''train'', ''val''] then
        ebind (list_getitem (DATA_TRAIN_JITTER_SCALES c) 0) (\<lambda>min_scale0.
        ebind (list_getitem (DATA_TRAIN_JITTER_SCALES c) 1) (\<lambda>max_scale0.
        ebind (case short_cycle_idx of
                 None \<Rightarrow> Inr (DATA_TRAIN_CROP_SIZE c)
               | Some k \<Rightarrow>
                   if k \<in> set [0, 1]
                   then ebind (list_getitem (MULTIGRID_SHORT_CYCLE_FACTORS c) k) (\<lambda>factor.
                          Inr (float_round fo
                                 (float_mul fo factor
                                    (float_of_int fo (MULTIGRID_DEFAULT_S c)))))
                   else Inr (DATA_TRAIN_CROP_SIZE c)) (\<lambda>crop.
        let min_scale1 =
              (if MULTIGRID_DEFAULT_S c > 0
               then float_round fo
                      (float_div fo
                         (float_mul fo (float_of_int fo min_scale0) (float_of_int fo crop))
                         (float_of_int fo (MULTIGRID_DEFAULT_S c)))
               else min_scale0)
        in Inr \<lparr>temporal_sample_index = - 1, spatial_sample_index = - 1,
                 min_scale = min_scale1, max_scale = max_scale0, crop_size = crop\<rparr>)))
      else if mode self \<in> set [''test''] then
        ebind (list_getitem (spatial_temporal_idx self) index) (\<lambda>st.
        ebind (py_floordiv st (TEST_NUM_SPATIAL_CROPS c)) (\<lambda>temporal.
        ebind (if TEST_NUM_SPATIAL_CROPS c > 1
               then ebind (list_getitem (spatial_temporal_idx self) index) (\<lambda>st'.
                      py_mod st' (TEST_NUM_SPATIAL_CROPS c))
               else Inr 1) (\<lambda>spatial.
        ebind (if TEST_NUM_SPATIAL_CROPS c > 1
               then Inr (DATA_TEST_CROP_SIZE c, DATA_TEST_CROP_SIZE c, DATA_TEST_CROP_SIZE c)
               else ebind (list_getitem (DATA_TRAIN_JITTER_SCALES c) 0) (\<lambda>j.
                      Inr (j, j, DATA_TEST_CROP_SIZE c))) (\<lambda>(mn, mx, crop).
        if mn \<noteq> mx then Inl AssertionError
        else Inr \<lparr>temporal_sample_index = temporal, spatial_sample_index = spatial,
                   min_scale = mn, max_scale = mx, crop_size = crop\<rparr>))))
      else Inl NotImplementedError)"

section \<open>The world outside the loader\<close>

text \<open>A tensor is kept as its shape, which is all the loader itself handles.\<close>

datatype tensor = Tensor (shape: "nat list")

text \<open>
  The collaborators the loader calls but does not define. An attempt of the retry
  loop is numbered by \<open>i_try\<close>, and every collaborator takes that number first, so
  that a file may be unreadable at one attempt and readable at the next.
  \<^item> \<open>glob\<close>: the files matching a pattern.
  \<^item> \<open>get_video_container\<close>: the opened container; \<open>None\<close> when it raised.
  \<^item> \<open>decode\<close>, \<open>decode_seq\<close>: the raw frames, or \<open>None\<close> for a failed decode,
    together with the clip's metadata dictionary, which the decoder receives by
    reference and may fill in.
  \<^item> \<open>random_source\<close>: the raw draw behind \<^verbatim>\<open>random.randint\<close>.
\<close>

record 'f world =
  glob :: "int \<Rightarrow> string \<Rightarrow> string list"
  get_video_container :: "int \<Rightarrow> string \<Rightarrow> bool \<Rightarrow> string \<Rightarrow> nat option"
  decode ::
    "int \<Rightarrow> nat \<Rightarrow> int \<Rightarrow> int \<Rightarrow> int \<Rightarrow> int \<Rightarrow> meta \<Rightarrow> int \<Rightarrow> string \<Rightarrow> int
       \<Rightarrow> tensor option \<times> meta"
  decode_seq ::
    "int \<Rightarrow> string \<Rightarrow> int \<Rightarrow> string list \<Rightarrow> meta \<Rightarrow> int \<Rightarrow> tensor option \<times> meta"
  random_source :: "int \<Rightarrow> nat"
  get_random_sampling_rate :: "int \<Rightarrow> int \<Rightarrow> int"
  pack_pathway_output :: "'f cfg \<Rightarrow> tensor \<Rightarrow> tensor list"

text \<open>\<^verbatim>\<open>random.randint(a, b)\<close>: a value of the closed range \<open>[a, b]\<close>, ValueError when
  the range is empty.\<close>

definition py_randint :: "'f world \<Rightarrow> int \<Rightarrow> int \<Rightarrow> int \<Rightarrow> error + int" where
  "py_randint w i_try a b =
     (if b < a then Inl ValueError
      else Inr (a + int (random_source w i_try mod nat (b - a + 1))))"

text \<open>\<^verbatim>\<open>t.permute(dims)\<close> on the shape; the dimensions must be a permutation of
  the tensor's axes.\<close>

definition permute :: "tensor \<Rightarrow> nat list \<Rightarrow> error + tensor" where
  "permute t dims =
     (if length dims = length (shape t) \<and> distinct dims
         \<and> list_all (\<lambda>d. d < length (shape t)) dims
      then Inr (Tensor (map (\<lambda>d. shape t ! d) dims))
      else Inl RuntimeError)"

text \<open>Modelled from the spec: \<^verbatim>\<open>utils.tensor_normalize\<close> is not among the sources.
  The spec's transform pipeline subtracts the mean and divides by the standard
  deviation per channel, which leaves the shape as it is.\<close>

definition tensor_normalize :: "tensor \<Rightarrow> 'f list \<Rightarrow> 'f list \<Rightarrow> tensor" where
  "tensor_normalize frames mean std = frames"

text \<open>Modelled from the spec: \<^verbatim>\<open>utils.spatial_sampling\<close> is not among the sources.
  The spec has it produce a scaled and cropped tensor of fixed spatial size: the two
  spatial axes of a (channels, frames, height, width) tensor become \<open>crop_size\<close>.\<close>

definition spatial_sampling ::
  "tensor \<Rightarrow> int \<Rightarrow> int \<Rightarrow> int \<Rightarrow> int \<Rightarrow> bool \<Rightarrow> bool \<Rightarrow> tensor" where
  "spatial_sampling frames spatial_idx mn mx crop random_horizontal_flip
       inverse_uniform_sampling =
     Tensor (take 2 (shape frames) @ [nat crop, nat crop])"

section \<open>The retry loop: the second half of \<^verbatim>\<open>__getitem__\<close>\<close>

text \<open>What a call did, in order: the index each attempt targeted, and each index
  drawn as a replacement together with the bounds given to \<^verbatim>\<open>random.randint\<close>.\<close>

datatype event = Attempted int int | Substituted int int int int

type_synonym item = "tensor list \<times> int \<times> int \<times> meta"

datatype outcome = Continue int "event list" | Return item

text \<open>The three identical blocks that end a failed attempt: draw a replacement
  index outside test mode once \<open>i_try\<close> exceeds half the budget, then \<^verbatim>\<open>continue\<close>.\<close>

definition try_another :: "'f world \<Rightarrow> 'f dataset \<Rightarrow> int \<Rightarrow> int \<Rightarrow> error + outcome" where
  "try_another w self i_try index =
     (if mode self \<notin> set [''test''] \<and> i_try > num_retries self div 2
      then ebind (py_randint w i_try 0 (int (length (path_to_videos self)) - 1)) (\<lambda>j.
             Inr (Continue j [Substituted i_try j 0 (int (length (path_to_videos self)) - 1)]))
      else Inr (Continue index []))"

text \<open>Lines 228 to 243: the \<^verbatim>\<open>try\<close> block of the frame-sequence branch and its
  handler. The result is the handle with the frame list, or \<open>None\<close> for
  \<^verbatim>\<open>tar_handler = None\<close>.\<close>

definition open_frame_sequence ::
  "'f world \<Rightarrow> 'f dataset \<Rightarrow> int \<Rightarrow> int \<Rightarrow> error + (string \<times> string list) option" where
  "open_frame_sequence w self i_try index =
     (case ebind (list_getitem (path_to_videos self) index) (\<lambda>tar_handler.
             let frame_list = glob w i_try (os_path_join (tar_handler @ ''_*.png'') []) in
             ebind (dict_getitem (video_meta self) index) (\<lambda>m.
             ebind (dict_getitem m ''num_frames'') (\<lambda>nf.
               if int (length frame_list) \<noteq> nf then Inl Exception
               else if length frame_list < 5 then Inl Exception
               else Inr (tar_handler, frame_list))))
      of Inl e \<Rightarrow>
           ebind (list_getitem (path_to_videos self) index) (\<lambda>p.
           ebind (str_format ''Failed to load tar file from {} with error: {}'' 1) (\<lambda>_.
             Inr None))
       | Inr r \<Rightarrow> Inr (Some r))"

text \<open>Lines 272 to 284: the \<^verbatim>\<open>try\<close> block of the video branch and its handler.\<close>

definition open_video :: "'f world \<Rightarrow> 'f dataset \<Rightarrow> int \<Rightarrow> int \<Rightarrow> error + nat option" where
  "open_video w self i_try index =
     (case ebind (list_getitem (path_to_videos self) index) (\<lambda>p.
             case get_video_container w i_try p
                    (DATA_LOADER_ENABLE_MULTI_THREAD_DECODE (cfg self))
                    (DATA_DECODING_BACKEND (cfg self)) of
               None \<Rightarrow> Inl Exception
             | Some vc \<Rightarrow> Inr vc)
      of Inl e \<Rightarrow>
           ebind (list_getitem (path_to_videos self) index) (\<lambda>p.
           ebind (str_format ''Failed to load video from {} with error {}'' 2) (\<lambda>_.
             Inr None))
       | Inr vc \<Rightarrow> Inr (Some vc))"

text \<open>Lines 331 to 350: normalise, reorder the axes, sample spatially, pack.\<close>

definition finish ::
  "'f world \<Rightarrow> params \<Rightarrow> 'f dataset \<Rightarrow> int \<Rightarrow> tensor \<Rightarrow> error + outcome" where
  "finish w p self index frames =
     (let c = cfg self;
          frames1 = tensor_normalize frames (DATA_MEAN c) (DATA_STD c)
      in ebind (permute frames1 [3, 0, 1, 2]) (\<lambda>frames2.
         let frames3 = spatial_sampling frames2 (spatial_sample_index p) (min_scale p)
                         (max_scale p) (crop_size p) (DATA_RANDOM_FLIP c)
                         (DATA_INV_UNIFORM_SAMPLE c)
         in ebind (list_getitem (labels self) index) (\<lambda>label.
              Inr (Return (pack_pathway_output w c frames3, label, index, [])))))"

text \<open>Lines 316 to 329 and the tail of the body: a failed decode logs and moves on,
  a successful one is finished and returned.\<close>

definition after_decode ::
  "'f world \<Rightarrow> params \<Rightarrow> 'f dataset \<Rightarrow> int \<Rightarrow> int \<Rightarrow> tensor option \<Rightarrow> error + outcome" where
  "after_decode w p self i_try index frames =
     (case frames of
        None \<Rightarrow>
          ebind (list_getitem (path_to_videos self) index) (\<lambda>path.
          ebind (str_format ''Failed to decode {} idx {} from {}; trial {}'' 4) (\<lambda>_.
            try_another w self i_try index))
      | Some fr \<Rightarrow> finish w p self index fr)"

text \<open>One pass through the body of \<^verbatim>\<open>for i_try in range(self._num_retries)\<close>.
  The dataset is returned with it, since the decoder is handed the clip's metadata
  dictionary and whatever it writes there stays.\<close>

definition attempt ::
  "'f world \<Rightarrow> params \<Rightarrow> int \<Rightarrow> 'f dataset \<Rightarrow> int \<Rightarrow> int \<Rightarrow> (error + outcome) \<times> 'f dataset" where
  "attempt w p sampling_rate self i_try index =
     (let c = cfg self in
      if DATA_USE_FRAME_SEQUENCES c then
        (case open_frame_sequence w self i_try index of
           Inl e \<Rightarrow> (Inl e, self)
         | Inr None \<Rightarrow>
             (ebind (list_getitem (path_to_videos self) index) (\<lambda>path.
              ebind (str_format ''Failed to meta load tar file from {}; trial {}'' 2) (\<lambda>_.
                try_another w self i_try index)), self)
         | Inr (Some (tar_handler, frame_list)) \<Rightarrow>
             (case dict_getitem (video_meta self) index of
                Inl e \<Rightarrow> (Inl e, self)
              | Inr m \<Rightarrow>
                  let (frames, m') = decode_seq w i_try tar_handler sampling_rate frame_list m
                                       (DATA_NUM_FRAMES c);
                      self' = self\<lparr>video_meta := dict_setitem (video_meta self) index m'\<rparr>
                  in (after_decode w p self' i_try index frames, self')))
      else
        (case open_video w self i_try index of
           Inl e \<Rightarrow> (Inl e, self)
         | Inr None \<Rightarrow>
             (ebind (list_getitem (path_to_videos self) index) (\<lambda>path.
              ebind (str_format ''Failed to meta load video idx {} from {}; trial {}'' 3) (\<lambda>_.
                try_another w self i_try index)), self)
         | Inr (Some video_container) \<Rightarrow>
             (case dict_getitem (video_meta self) index of
                Inl e \<Rightarrow> (Inl e, self)
              | Inr m \<Rightarrow>
                  let (frames, m') = decode w i_try video_container sampling_rate
                                       (DATA_NUM_FRAMES c) (temporal_sample_index p)
                                       (TEST_NUM_ENSEMBLE_VIEWS c) m (DATA_TARGET_FPS c)
                                       (DATA_DECODING_BACKEND c) (min_scale p);
                      self' = self\<lparr>video_meta := dict_setitem (video_meta self) index m'\<rparr>
                  in (after_decode w p self' i_try index frames, self'))))"

text \<open>The \<^verbatim>\<open>for ... else\<close> loop over the attempt numbers still to run. The result
  is what the call returns or raises, the dataset afterwards, and the events.\<close>

fun retry_loop ::
  "'f world \<Rightarrow> params \<Rightarrow> int \<Rightarrow> 'f dataset \<Rightarrow> int \<Rightarrow> int list
     \<Rightarrow> (error + item) \<times> 'f dataset \<times> event list" where
  "retry_loop w p sampling_rate self index [] =
     (ebind (str_format ''Failed to fetch video after {} retries.'' 1) (\<lambda>_. Inl RuntimeError),
      self, [])"
| "retry_loop w p sampling_rate self index (i_try # rest) =
     (case attempt w p sampling_rate self i_try index of
        (Inl e, self') \<Rightarrow> (Inl e, self', [Attempted i_try index])
      | (Inr (Return it), self') \<Rightarrow> (Inr it, self', [Attempted i_try index])
      | (Inr (Continue index' evs), self') \<Rightarrow>
          (case retry_loop w p sampling_rate self' index' rest of
             (r, self'', evs') \<Rightarrow> (r, self'', Attempted i_try index # evs @ evs')))"

text \<open>Lines 161 to 164: a tuple argument carries the short-cycle index.\<close>

definition unpack_index :: "item_index \<Rightarrow> int \<times> int option" where
  "unpack_index idx =
     (case idx of Plain i \<Rightarrow> (i, None) | WithShortCycle i k \<Rightarrow> (i, Some k))"

text \<open>\<^verbatim>\<open>__getitem__\<close>.\<close>

definition getitem ::
  "'f world \<Rightarrow> 'f float_ops \<Rightarrow> 'f dataset \<Rightarrow> item_index
     \<Rightarrow> (error + item) \<times> 'f dataset \<times> event list" where
  "getitem w fo self idx =
     (case unpack_index idx of (index, short_cycle_idx) \<Rightarrow>
        (case sampling_params fo self index short_cycle_idx of
           Inl e \<Rightarrow> (Inl e, self, [])
         | Inr p \<Rightarrow>
             retry_loop w p
               (get_random_sampling_rate w (MULTIGRID_LONG_CYCLE_SAMPLING_RATE (cfg self))
                  (DATA_SAMPLING_RATE (cfg self)))
               self index (py_range (num_retries self))))"

text \<open>Reading the events of a call: the attempts as pairs of attempt number and
  targeted index, and the replacement draws.\<close>

fun attempts :: "event list \<Rightarrow> (int \<times> int) list" where
  "attempts [] = []"
| "attempts (Attempted i_try index # evs) = (i_try, index) # attempts evs"
| "attempts (Substituted i_try j lo hi # evs) = attempts evs"

fun substitutions :: "event list \<Rightarrow> (int \<times> int \<times> int \<times> int) list" where
  "substitutions [] = []"
| "substitutions (Attempted i_try index # evs) = substitutions evs"
| "substitutions (Substituted i_try j lo hi # evs) = (i_try, j, lo, hi) # substitutions evs"

section \<open>Well-formed manifests and datasets\<close>

text \<open>A computation succeeds when it raises nothing. A manifest line is valid when
  the loader unpacks it and converts its numbers without an exception.\<close>

definition succeeds :: "error + 'a \<Rightarrow> bool" where
  "succeeds m = (case m of Inl e \<Rightarrow> False | Inr x \<Rightarrow> True)"

definition valid_line :: "'f cfg \<Rightarrow> string \<Rightarrow> bool" where
  "valid_line c path_label =
     (case parse_line c path_label of
        Inl e \<Rightarrow> False
      | Inr (path, label, num_frames) \<Rightarrow>
          succeeds (py_int label)
          \<and> (DATA_USE_FRAME_SEQUENCES c \<longrightarrow>
               (case num_frames of None \<Rightarrow> False | Some nf \<Rightarrow> succeeds (py_int nf))))"

text \<open>The label a manifest line declares.\<close>

definition line_label :: "'f cfg \<Rightarrow> string \<Rightarrow> error + int" where
  "line_label c path_label =
     ebind (parse_line c path_label) (\<lambda>(path, label, num_frames). py_int label)"

text \<open>What the loader relies on after construction: the three sequences have one
  length, and every index has a metadata dictionary, holding the frame count in
  frame-sequence mode.\<close>

definition has_meta :: "'f dataset \<Rightarrow> int \<Rightarrow> bool" where
  "has_meta self k =
     (case map_of (video_meta self) k of
        None \<Rightarrow> False
      | Some m \<Rightarrow> DATA_USE_FRAME_SEQUENCES (cfg self) \<longrightarrow> map_of m ''num_frames'' \<noteq> None)"

definition wf_dataset :: "'f dataset \<Rightarrow> bool" where
  "wf_dataset self =
     (length (labels self) = length (path_to_videos self)
      \<and> length (spatial_temporal_idx self) = length (path_to_videos self)
      \<and> (\<forall>k. 0 \<le> k \<and> k < int (length (path_to_videos self)) \<longrightarrow> has_meta self k))"


section \<open>Example inputs\<close>

text \<open>A concrete configuration, manifests and datasets on which the statements
  below are evaluated. Floats are exact rationals here, rounded half to even as
  \<^verbatim>\<open>round\<close> does.\<close>

fun round_half_even :: "rat \<Rightarrow> int" where
  "round_half_even x =
     (let f = \<lfloor>x\<rfloor>; d = x - of_int f
      in if d < 1 / 2 then f else if 1 / 2 < d then f + 1
         else if even f then f else f + 1)"

definition example_float_ops :: "rat float_ops" where
  "example_float_ops =
     \<lparr>float_of_int = of_int, float_mul = (*), float_div = (/),
      float_round = round_half_even\<rparr>"

definition example_cfg :: "rat cfg" where
  "example_cfg =
     \<lparr>DATA_USE_FRAME_SEQUENCES = False, DATA_PATH_TO_DATA_DIR = ''data'',
      DATA_PATH_LABEL_SEPARATOR = '' '', DATA_PATH_PREFIX = ''videos'',
      DATA_TRAIN_JITTER_SCALES = [256, 320], DATA_TRAIN_CROP_SIZE = 224,
      DATA_TEST_CROP_SIZE = 256, DATA_SAMPLING_RATE = 8, DATA_NUM_FRAMES = 8,
      DATA_TARGET_FPS = 30, DATA_DECODING_BACKEND = ''pyav'',
      DATA_MEAN = [9 / 20, 9 / 20, 9 / 20], DATA_STD = [9 / 40, 9 / 40, 9 / 40],
      DATA_RANDOM_FLIP = True, DATA_INV_UNIFORM_SAMPLE = False,
      DATA_LOADER_ENABLE_MULTI_THREAD_DECODE = False,
      MULTIGRID_SHORT_CYCLE_FACTORS = [1 / 2, 7071 / 10000], MULTIGRID_DEFAULT_S = 224,
      MULTIGRID_LONG_CYCLE_SAMPLING_RATE = 0, TEST_NUM_SPATIAL_CROPS = 3,
      TEST_NUM_ENSEMBLE_VIEWS = 10\<rparr>"

definition example_seq_cfg :: "rat cfg" where
  "example_seq_cfg = example_cfg\<lparr>DATA_USE_FRAME_SEQUENCES := True\<rparr>"

definition example_fs :: filesystem where
  "example_fs path =
     (if path = ''data/train.csv'' then Some [''a.mp4 3'', ''b.mp4 7'']
      else if path = ''data/test.csv'' then Some [''a.mp4 3'', ''b.mp4 7'']
      else if path = ''data/val.csv'' then Some []
      else if path = ''data/BharatDSL_train.csv''
        then Some [''train hello s1 8 4'', ''train bye s2 6 2'']
      else if path = ''data/BharatDSL_test.csv''
        then Some [''test hello s3 8 4'']
      else None)"

definition example_ds :: "string \<Rightarrow> rat dataset" where
  "example_ds m =
     \<lparr>mode = m, cfg = example_cfg, video_meta = [(0, []), (1, [])], num_retries = 10,
      num_clips = Some 1, path_to_videos = [''videos/a.mp4'', ''videos/b.mp4''],
      labels = [3, 7], spatial_temporal_idx = [0, 0]\<rparr>"

definition example_seq_ds :: "rat dataset" where
  "example_seq_ds =
     \<lparr>mode = ''train'', cfg = example_seq_cfg,
      video_meta = [(0, [(''num_frames'', 8)]), (1, [(''num_frames'', 6)])],
      num_retries = 10, num_clips = Some 1,
      path_to_videos = [''videos/BharatDSL_dataset/train/hello/s1'',
                        ''videos/BharatDSL_dataset/train/bye/s2''],
      labels = [4, 2], spatial_temporal_idx = [0, 0]\<rparr>"

definition example_seq_test_ds :: "rat dataset" where
  "example_seq_test_ds =
     \<lparr>mode = ''test'', cfg = example_seq_cfg,
      video_meta = [(0, [(''num_frames'', 8)])],
      num_retries = 10, num_clips = Some 1,
      path_to_videos = [''videos/BharatDSL_dataset/test/hello/s3''],
      labels = [4], spatial_temporal_idx = [0]\<rparr>"

definition example_params :: params where
  "example_params =
     \<lparr>temporal_sample_index = - 1, spatial_sample_index = - 1, min_scale = 256,
      max_scale = 320, crop_size = 224\<rparr>"

text \<open>A world in which six frame files are found for the clip \<^verbatim>\<open>bye/s2\<close> and
  seven for every other clip, the video \<^verbatim>\<open>videos/b.mp4\<close> opens and
  \<^verbatim>\<open>videos/a.mp4\<close> does not, and the decoders return eight frames of 240 by 320
  pixels in three channels.\<close>

definition example_world :: "rat world" where
  "example_world =
     \<lparr>glob = (\<lambda>i_try pattern.
         if pattern = ''videos/BharatDSL_dataset/train/bye/s2_*.png''
         then [''f_0.png'', ''f_1.png'', ''f_2.png'', ''f_3.png'', ''f_4.png'', ''f_5.png'']
         else [''f_0.png'', ''f_1.png'', ''f_2.png'', ''f_3.png'', ''f_4.png'', ''f_5.png'',
               ''f_6.png'']),
      get_video_container = (\<lambda>i_try path multi_thread backend.
         if path = ''videos/b.mp4'' then Some 1 else None),
      decode = (\<lambda>i_try vc rate num_frames temporal views m fps backend max_scale.
         (Some (Tensor [8, 240, 320, 3]), m)),
      decode_seq = (\<lambda>i_try handle rate frame_list m num_frames.
         (Some (Tensor [8, 240, 320, 3]), m)),
      random_source = (\<lambda>i_try. nat i_try),
      get_random_sampling_rate = (\<lambda>long_cycle rate. rate),
      pack_pathway_output = (\<lambda>c t. [t])\<rparr>"

text \<open>A world in which no clip can be read: seven frame files are found for every
  clip, none of which declares seven, and no video opens.\<close>

definition failing_world :: "rat world" where
  "failing_world =
     example_world
       \<lparr>glob := (\<lambda>i_try pattern.
          [''f_0.png'', ''f_1.png'', ''f_2.png'', ''f_3.png'', ''f_4.png'', ''f_5.png'',
           ''f_6.png'']),
        get_video_container := (\<lambda>i_try path multi_thread backend. None)\<rparr>"

section \<open>Basic facts\<close>

lemma ebind_Inr_iff: "ebind m k = Inr y \<longleftrightarrow> (\<exists>x. m = Inr x \<and> k x = Inr y)"
  by (cases m) (simp_all add: ebind_def)

lemma ebind_Inr [simp]: "ebind (Inr x) k = k x"
  by (simp add: ebind_def)

lemma succeeds_iff: "succeeds m \<longleftrightarrow> (\<exists>x. m = Inr x)"
  by (cases m) (simp_all add: succeeds_def)

lemma ebind_Inl [simp]: "ebind (Inl e) k = Inl e"
  by (simp add: ebind_def)

lemma length_py_range [simp]: "length (py_range n) = nat n"
  by (simp add: py_range_def)

lemma py_range_1 [simp]: "py_range 1 = [0]"
  by (simp add: py_range_def)

lemma set_py_range: "set (py_range n) = {0 ..< n}"
proof (rule set_eqI)
  fix x
  show "x \<in> set (py_range n) \<longleftrightarrow> x \<in> {0 ..< n}"
  proof
    assume "x \<in> set (py_range n)"
    then show "x \<in> {0 ..< n}" by (auto simp: py_range_def)
  next
    assume "x \<in> {0 ..< n}"
    then show "x \<in> set (py_range n)"
      unfolding py_range_def by (auto intro!: image_eqI[where x = "nat x"])
  qed
qed

lemma add_clip_frame:
  assumes "add_clip self ci n path label nf idx = Inr s'"
  shows "path_to_videos s' =
           path_to_videos self @ [os_path_join (DATA_PATH_PREFIX (cfg self)) [path]]"
    and "\<exists>l. labels s' = labels self @ [l]"
    and "spatial_temporal_idx s' = spatial_temporal_idx self @ [idx]"
    and "cfg s' = cfg self" and "mode s' = mode self"
    and "num_clips s' = num_clips self" and "num_retries s' = num_retries self"
  using assms
  by (auto simp: add_clip_def Let_def ebind_Inr_iff split: if_splits option.splits)

lemma add_clip_meta:
  assumes "add_clip self ci n path label nf idx = Inr s'"
  shows "has_meta s' (ci * n + idx)"
    and "k \<noteq> ci * n + idx \<Longrightarrow> map_of (video_meta s') k = map_of (video_meta self) k"
proof -
  from assms obtain l where l: "py_int label = Inr l"
    by (auto simp: add_clip_def Let_def ebind_Inr_iff)
  show "has_meta s' (ci * n + idx)"
  proof (cases "DATA_USE_FRAME_SEQUENCES (cfg self)")
    case False
    with assms l have "video_meta s' = AList.update (ci * n + idx) [] (video_meta self)"
      and "cfg s' = cfg self"
      by (auto simp: add_clip_def Let_def dict_setitem_def)
    with False show ?thesis
      by (simp add: has_meta_def update_conv)
  next
    case True
    with assms l obtain t v where "nf = Some t" "py_int t = Inr v"
      by (auto simp: add_clip_def Let_def ebind_Inr_iff split: option.splits)
    with assms l True have
      "video_meta s' = AList.update (ci * n + idx) [(''num_frames'', v)]
         (AList.update (ci * n + idx) [] (video_meta self))"
      by (auto simp: add_clip_def Let_def dict_setitem_def dict_getitem_def update_conv)
    then show ?thesis
      by (simp add: has_meta_def update_conv)
  qed
  show "map_of (video_meta s') k = map_of (video_meta self) k" if "k \<noteq> ci * n + idx"
  proof (cases "DATA_USE_FRAME_SEQUENCES (cfg self)")
    case False
    with assms l have "video_meta s' = AList.update (ci * n + idx) [] (video_meta self)"
      by (auto simp: add_clip_def Let_def dict_setitem_def)
    with that show ?thesis by (simp add: update_conv)
  next
    case True
    with assms l obtain t v where "nf = Some t" "py_int t = Inr v"
      by (auto simp: add_clip_def Let_def ebind_Inr_iff split: option.splits)
    with assms l True have
      "video_meta s' = AList.update (ci * n + idx) [(''num_frames'', v)]
         (AList.update (ci * n + idx) [] (video_meta self))"
      by (auto simp: add_clip_def Let_def dict_setitem_def dict_getitem_def update_conv)
    with that show ?thesis by (simp add: update_conv)
  qed
qed

lemma add_clip_total:
  assumes "succeeds (py_int label)"
    and "DATA_USE_FRAME_SEQUENCES (cfg self) \<longrightarrow>
           (case nf of None \<Rightarrow> False | Some t \<Rightarrow> succeeds (py_int t))"
  shows "\<exists>s'. add_clip self ci n path label nf idx = Inr s'"
proof -
  from assms(1) obtain l where l: "py_int label = Inr l"
    by (auto simp: succeeds_iff)
  show ?thesis
  proof (cases "DATA_USE_FRAME_SEQUENCES (cfg self)")
    case False
    with l show ?thesis by (simp add: add_clip_def Let_def)
  next
    case True
    with assms(2) obtain t v where "nf = Some t" "py_int t = Inr v"
      by (auto simp: succeeds_iff split: option.splits)
    with l True show ?thesis
      by (simp add: add_clip_def Let_def dict_setitem_def dict_getitem_def update_conv)
  qed
qed

lemma add_clips_frame:
  assumes "add_clips self ci n path label nf idxs = Inr s'"
  shows "length (path_to_videos s') = length (path_to_videos self) + length idxs
         \<and> length (labels s') = length (labels self) + length idxs
         \<and> spatial_temporal_idx s' = spatial_temporal_idx self @ idxs
         \<and> cfg s' = cfg self \<and> mode s' = mode self
         \<and> num_clips s' = num_clips self \<and> num_retries s' = num_retries self"
  using assms
proof (induction idxs arbitrary: self)
  case Nil
  then show ?case by simp
next
  case (Cons idx idxs)
  from Cons.prems obtain s1 where
    s1: "add_clip self ci n path label nf idx = Inr s1"
    and rest: "add_clips s1 ci n path label nf idxs = Inr s'"
    by (auto simp: ebind_Inr_iff)
  from add_clip_frame[OF s1] Cons.IH[OF rest] show ?case
    by auto
qed

lemma add_clips_total:
  assumes "succeeds (py_int label)"
    and "DATA_USE_FRAME_SEQUENCES (cfg self) \<longrightarrow>
           (case nf of None \<Rightarrow> False | Some t \<Rightarrow> succeeds (py_int t))"
  shows "\<exists>s'. add_clips self ci n path label nf idxs = Inr s'"
  using assms
proof (induction idxs arbitrary: self)
  case Nil
  then show ?case by simp
next
  case (Cons idx idxs)
  from add_clip_total[OF Cons.prems, of ci n path idx] obtain s1 where
    s1: "add_clip self ci n path label nf idx = Inr s1" by blast
  have "cfg s1 = cfg self" by (rule add_clip_frame(4)[OF s1])
  with Cons.IH[of s1] Cons.prems s1 show ?case by simp
qed

lemma read_lines_frame:
  assumes "read_lines self ci ls = Inr s'" and "num_clips self = Some n"
  shows "length (path_to_videos s') = length (path_to_videos self) + length ls * nat n
         \<and> length (labels s') = length (labels self) + length ls * nat n
         \<and> length (spatial_temporal_idx s')
             = length (spatial_temporal_idx self) + length ls * nat n
         \<and> set (spatial_temporal_idx s') \<subseteq> set (spatial_temporal_idx self) \<union> {0 ..< n}
         \<and> cfg s' = cfg self \<and> mode s' = mode self
         \<and> num_clips s' = num_clips self \<and> num_retries s' = num_retries self"
  using assms
proof (induction ls arbitrary: self ci)
  case Nil
  then show ?case by simp
next
  case (Cons l ls)
  from Cons.prems obtain path label nf s1 where
    s1: "add_clips self ci n path label nf (py_range n) = Inr s1"
    and rest: "read_lines s1 (ci + 1) ls = Inr s'"
    by (auto simp: ebind_Inr_iff)
  note f = add_clips_frame[OF s1]
  from f Cons.prems have "num_clips s1 = Some n" by simp
  from Cons.IH[OF rest this] f show ?case
    by (auto simp: set_py_range)
qed

lemma read_lines_total:
  assumes "\<forall>l \<in> set ls. valid_line (cfg self) l" and "num_clips self = Some n"
  shows "\<exists>s'. read_lines self ci ls = Inr s'"
  using assms
proof (induction ls arbitrary: self ci)
  case Nil
  then show ?case by simp
next
  case (Cons l ls)
  from Cons.prems have "valid_line (cfg self) l" by simp
  then obtain path label nf where
    p: "parse_line (cfg self) l = Inr (path, label, nf)"
    and ok: "succeeds (py_int label)"
      "DATA_USE_FRAME_SEQUENCES (cfg self) \<longrightarrow>
         (case nf of None \<Rightarrow> False | Some t \<Rightarrow> succeeds (py_int t))"
    by (auto simp: valid_line_def split: sum.splits)
  from add_clips_total[OF ok, of ci n path "py_range n"] obtain s1 where
    s1: "add_clips self ci n path label nf (py_range n) = Inr s1" by blast
  note f = add_clips_frame[OF s1]
  from f Cons.prems have "\<forall>l \<in> set ls. valid_line (cfg s1) l" "num_clips s1 = Some n"
    by simp_all
  from Cons.IH[OF this, of "ci + 1"] p s1 Cons.prems(2) show ?case
    by simp
qed

lemma read_lines_meta:
  assumes "read_lines self ci ls = Inr s'" and "num_clips self = Some 1"
    and "int (length (path_to_videos self)) = ci"
    and "\<forall>k. 0 \<le> k \<and> k < ci \<longrightarrow> has_meta self k"
  shows "\<forall>k. 0 \<le> k \<and> k < int (length (path_to_videos s')) \<longrightarrow> has_meta s' k"
  using assms
proof (induction ls arbitrary: self ci)
  case Nil
  then show ?case by simp
next
  case (Cons l ls)
  from Cons.prems(1,2) obtain path label nf s1 where
    s1: "add_clip self ci 1 path label nf 0 = Inr s1"
    and rest: "read_lines s1 (ci + 1) ls = Inr s'"
    by (auto simp: ebind_Inr_iff)
  note f = add_clip_frame[OF s1] and m = add_clip_meta[OF s1]
  have n1: "num_clips s1 = Some 1" using f Cons.prems(2) by simp
  have len1: "int (length (path_to_videos s1)) = ci + 1"
    using f(1) Cons.prems(3) by simp
  have "has_meta s1 k" if "0 \<le> k \<and> k < ci + 1" for k
  proof (cases "k = ci")
    case True
    with m(1) show ?thesis by simp
  next
    case False
    with that Cons.prems(4) have "has_meta self k" by simp
    moreover from False have "map_of (video_meta s1) k = map_of (video_meta self) k"
      using m(2)[of k] by simp
    ultimately show ?thesis using f(4) by (simp add: has_meta_def split: option.splits)
  qed
  then have "\<forall>k. 0 \<le> k \<and> k < ci + 1 \<longrightarrow> has_meta s1 k" by blast
  from Cons.IH[OF rest n1 len1 this] show ?case .
qed


lemmas example_defs =
  Kinetics_init_def construct_loader_def example_cfg_def example_seq_cfg_def example_fs_def
  manifest_path_def os_path_join_def path_join2_def parse_line_def str_split_def
  add_clip_def py_int_def str_strip_def is_space_def valid_digits_def is_digit_def
  digits_value_def dict_setitem_def dict_getitem_def example_ds_def example_seq_ds_def
  example_seq_test_ds_def

lemma example_train: "Kinetics_init example_cfg ''train'' 10 example_fs = Inr (example_ds ''train'')"
  by (simp add: example_defs)

lemma example_test: "Kinetics_init example_cfg ''test'' 10 example_fs = Inr (example_ds ''test'')"
  by (simp add: example_defs)

lemma example_seq_train:
  "Kinetics_init example_seq_cfg ''train'' 10 example_fs = Inr example_seq_ds"
  by (simp add: example_defs)

lemma example_seq_test:
  "Kinetics_init example_seq_cfg ''test'' 10 example_fs = Inr example_seq_test_ds"
  by (simp add: example_defs)

lemma example_val: "Kinetics_init example_cfg ''val'' 10 example_fs = Inl AssertionError"
  by (simp add: example_defs)

lemma valid_line_nonempty: "valid_line c l \<Longrightarrow> l \<noteq> []"
  by (auto simp: valid_line_def parse_line_def str_split_def str_strip_def
      split: if_splits)

lemma Kinetics_init_Inr:
  assumes "Kinetics_init c m r fs = Inr ds"
  shows "m \<in> set [''train'', ''val'', ''test'']"
    and "mode ds = m" and "cfg ds = c" and "num_retries ds = r"
    and "num_clips ds = Some 1"
    and "\<exists>ls. fs (manifest_path c m) = Some ls \<and> length (path_to_videos ds) = length ls"
    and "wf_dataset ds"
    and "\<forall>s \<in> set (spatial_temporal_idx ds). s = 0"
    and "0 < length (path_to_videos ds)"
proof -
  define self0 :: "'a dataset" where
    "self0 = \<lparr>mode = m, cfg = c, video_meta = [], num_retries = r, num_clips = Some 1,
              path_to_videos = [], labels = [], spatial_temporal_idx = []\<rparr>"
  from assms show m: "m \<in> set [''train'', ''val'', ''test'']"
    by (simp add: Kinetics_init_def split: if_splits)
  with assms have cl: "construct_loader fs self0 = Inr ds"
    by (simp add: Kinetics_init_def self0_def Let_def split: if_splits)
  then obtain ls where ls: "fs (manifest_path c m) = Some ls"
    and rl: "read_lines self0 0 ls = Inr ds"
    and pos: "0 < length (path_to_videos ds)"
    by (auto simp: construct_loader_def self0_def ebind_Inr_iff
        split: option.splits if_splits)
  have n: "num_clips self0 = Some 1" by (simp add: self0_def)
  note f = read_lines_frame[OF rl n]
  from f show "mode ds = m" "cfg ds = c" "num_retries ds = r" "num_clips ds = Some 1"
    by (simp_all add: self0_def)
  from f ls show "\<exists>ls. fs (manifest_path c m) = Some ls
      \<and> length (path_to_videos ds) = length ls"
    by (simp add: self0_def)
  from f show "\<forall>s \<in> set (spatial_temporal_idx ds). s = 0"
    by (auto simp: self0_def)
  have "\<forall>k. 0 \<le> k \<and> k < int (length (path_to_videos ds)) \<longrightarrow> has_meta ds k"
    by (rule read_lines_meta[OF rl n]) (auto simp: self0_def)
  with f show "wf_dataset ds"
    by (simp add: wf_dataset_def self0_def)
  from pos show "0 < length (path_to_videos ds)" .
qed

section \<open>Construction\<close>

text \<open>
  Claim C4. For a manifest that exists, has \<open>K \<ge> 1\<close> lines and only valid lines,
  construction in any of the three modes succeeds with replica count \<open>R = 1\<close>; the
  sequences of paths, labels and spatial-temporal indices each have \<open>K \<times> R\<close>
  entries, and \<^verbatim>\<open>__len__\<close> returns \<open>K \<times> R\<close>. A valid line is never empty.
\<close>

theorem construction_size:
  assumes "m \<in> set [''train'', ''val'', ''test'']"
    and "fs (manifest_path c m) = Some file_lines"
    and "file_lines \<noteq> []"
    and "\<forall>l \<in> set file_lines. valid_line c l"
  shows "\<exists>ds R. Kinetics_init c m retries fs = Inr ds \<and> num_clips ds = Some R \<and> R = 1
           \<and> int (length (path_to_videos ds)) = int (length file_lines) * R
           \<and> int (length (labels ds)) = int (length file_lines) * R
           \<and> int (length (spatial_temporal_idx ds)) = int (length file_lines) * R
           \<and> len ds = int (length file_lines) * R
           \<and> (\<forall>l \<in> set file_lines. l \<noteq> [])"
proof -
  define self0 :: "'a dataset" where
    "self0 = \<lparr>mode = m, cfg = c, video_meta = [], num_retries = retries,
              num_clips = Some 1, path_to_videos = [], labels = [],
              spatial_temporal_idx = []\<rparr>"
  have n: "num_clips self0 = Some 1" by (simp add: self0_def)
  from assms(4) have "\<forall>l \<in> set file_lines. valid_line (cfg self0) l"
    by (simp add: self0_def)
  from read_lines_total[OF this n, of 0] obtain ds where
    rl: "read_lines self0 0 file_lines = Inr ds" by blast
  note f = read_lines_frame[OF rl n]
  from f assms(3) have pos: "0 < length (path_to_videos ds)"
    by (simp add: self0_def)
  from assms(1,2) rl pos have "Kinetics_init c m retries fs = Inr ds"
    by (auto simp: Kinetics_init_def construct_loader_def self0_def Let_def)
  moreover from f have "num_clips ds = Some 1"
    "length (path_to_videos ds) = length file_lines"
    "length (labels ds) = length file_lines"
    "length (spatial_temporal_idx ds) = length file_lines"
    by (simp_all add: self0_def)
  moreover from assms(4) have "\<forall>l \<in> set file_lines. l \<noteq> []"
    by (auto dest: valid_line_nonempty)
  ultimately show ?thesis
    by (simp add: len_def)
qed

theorem construction_size_witness:
  "''train'' \<in> set [''train'', ''val'', ''test'']
   \<and> example_fs (manifest_path example_cfg ''train'') = Some [''a.mp4 3'', ''b.mp4 7'']
   \<and> [''a.mp4 3'', ''b.mp4 7''] \<noteq> []
   \<and> valid_line example_cfg ''a.mp4 3'' \<and> valid_line example_cfg ''b.mp4 7''
   \<and> (\<exists>ds. Kinetics_init example_cfg ''train'' 10 example_fs = Inr ds
          \<and> num_clips ds = Some 1 \<and> len ds = 2)"
proof -
  have a: "''train'' \<in> set [''train'', ''val'', ''test'']" by simp
  have b: "example_fs (manifest_path example_cfg ''train'') = Some [''a.mp4 3'', ''b.mp4 7'']"
    by (simp add: example_defs)
  have c: "[''a.mp4 3'', ''b.mp4 7''] \<noteq> []" by simp
  have d: "\<forall>l \<in> set [''a.mp4 3'', ''b.mp4 7'']. valid_line example_cfg l"
    by (simp add: valid_line_def succeeds_def example_defs)
  from construction_size[where fs = example_fs and c = example_cfg and m = "''train''"
      and retries = 10, OF a b c d] a b c d show ?thesis
    by auto
qed

text \<open>
  Claim C5. A manifest without lines makes construction fail with the assertion of
  \<^verbatim>\<open>_construct_loader\<close>, and no construction that completes has an empty index:
  \<^verbatim>\<open>__len__\<close> is positive on every constructed dataset.
\<close>

theorem empty_manifest_fails:
  "(fs (manifest_path c m) = Some [] \<longrightarrow> Kinetics_init c m retries fs = Inl AssertionError)
   \<and> (\<forall>ds. Kinetics_init c m retries fs = Inr ds \<longrightarrow> 0 < len ds)"
proof (intro conjI impI allI)
  assume "fs (manifest_path c m) = Some []"
  then show "Kinetics_init c m retries fs = Inl AssertionError"
    by (simp add: Kinetics_init_def construct_loader_def Let_def)
next
  fix ds
  assume "Kinetics_init c m retries fs = Inr ds"
  from Kinetics_init_Inr(9)[OF this] show "0 < len ds"
    by (simp add: len_def)
qed

theorem empty_manifest_fails_witness:
  "example_fs (manifest_path example_cfg ''val'') = Some []
   \<and> Kinetics_init example_cfg ''val'' 10 example_fs = Inl AssertionError
   \<and> Kinetics_init example_cfg ''train'' 10 example_fs = Inr (example_ds ''train'')
   \<and> 0 < len (example_ds ''train'')"
proof -
  have a: "example_fs (manifest_path example_cfg ''val'') = Some []"
    by (simp add: example_defs)
  have b: "Kinetics_init example_cfg ''train'' 10 example_fs = Inr (example_ds ''train'')"
    by (rule example_train)
  from empty_manifest_fails[of example_fs example_cfg "''val''" 10] a
  have "Kinetics_init example_cfg ''val'' 10 example_fs = Inl AssertionError" by blast
  moreover from empty_manifest_fails[of example_fs example_cfg "''train''" 10] b
  have "0 < len (example_ds ''train'')" by blast
  ultimately show ?thesis using a b by simp
qed

lemma list_getitem_valid:
  "- int (length xs) \<le> i \<Longrightarrow> i < int (length xs) \<Longrightarrow> \<exists>x \<in> set xs. list_getitem xs i = Inr x"
  by (auto simp: list_getitem_def)

lemma list_getitem_nonneg:
  "0 \<le> i \<Longrightarrow> i < int (length xs) \<Longrightarrow> list_getitem xs i = Inr (xs ! nat i)"
  by (simp add: list_getitem_def)

lemma sampling_params_test:
  assumes "mode self = ''test''"
    and "list_getitem (spatial_temporal_idx self) index = Inr st"
    and "1 \<le> TEST_NUM_SPATIAL_CROPS (cfg self)"
    and "TEST_NUM_SPATIAL_CROPS (cfg self) = 1 \<longrightarrow> DATA_TRAIN_JITTER_SCALES (cfg self) \<noteq> []"
  shows "\<exists>p. sampling_params fo self index short_cycle_idx = Inr p
           \<and> temporal_sample_index p = st div TEST_NUM_SPATIAL_CROPS (cfg self)
           \<and> spatial_sample_index p =
               (if TEST_NUM_SPATIAL_CROPS (cfg self) > 1
                then st mod TEST_NUM_SPATIAL_CROPS (cfg self) else 1)
           \<and> min_scale p = max_scale p"
proof (cases "TEST_NUM_SPATIAL_CROPS (cfg self) > 1")
  case True
  with assms(1,2) show ?thesis
    by (simp add: sampling_params_def Let_def py_floordiv_def py_mod_def)
next
  case False
  with assms(3) have one: "TEST_NUM_SPATIAL_CROPS (cfg self) = 1" by simp
  with assms(4) obtain j js where "DATA_TRAIN_JITTER_SCALES (cfg self) = j # js"
    by (cases "DATA_TRAIN_JITTER_SCALES (cfg self)") auto
  with assms(1,2) one show ?thesis
    by (simp add: sampling_params_def Let_def py_floordiv_def list_getitem_def)
qed

section \<open>Sampling parameters\<close>

text \<open>
  Claim C6. In test mode, for an index that the list of spatial-temporal indices
  accepts and a positive number of spatial crops, the temporal sample index is the
  entry floor-divided by the number of crops, the spatial sample index is the entry
  modulo the number of crops when there are several crops and 1 when there is one,
  and the minimal scale equals the maximal scale in both branches.
\<close>

theorem test_sampling_params:
  assumes "mode self = ''test''"
    and "list_getitem (spatial_temporal_idx self) index = Inr st"
    and "1 \<le> TEST_NUM_SPATIAL_CROPS (cfg self)"
    and "TEST_NUM_SPATIAL_CROPS (cfg self) = 1 \<longrightarrow> DATA_TRAIN_JITTER_SCALES (cfg self) \<noteq> []"
  shows "\<exists>p. sampling_params fo self index short_cycle_idx = Inr p
           \<and> temporal_sample_index p = st div TEST_NUM_SPATIAL_CROPS (cfg self)
           \<and> spatial_sample_index p =
               (if TEST_NUM_SPATIAL_CROPS (cfg self) > 1
                then st mod TEST_NUM_SPATIAL_CROPS (cfg self) else 1)
           \<and> min_scale p = max_scale p"
  using assms by (rule sampling_params_test)

theorem test_sampling_params_witness:
  "mode (example_ds ''test'') = ''test''
   \<and> list_getitem (spatial_temporal_idx (example_ds ''test'')) 1 = Inr 0
   \<and> 1 \<le> TEST_NUM_SPATIAL_CROPS (cfg (example_ds ''test''))
   \<and> (\<exists>p. sampling_params example_float_ops (example_ds ''test'') 1 None = Inr p
          \<and> temporal_sample_index p = 0 \<and> spatial_sample_index p = 0
          \<and> min_scale p = max_scale p)"
proof -
  have a: "mode (example_ds ''test'') = ''test''" by (simp add: example_ds_def)
  have b: "list_getitem (spatial_temporal_idx (example_ds ''test'')) 1 = Inr 0"
    by (simp add: example_ds_def list_getitem_def)
  have c: "1 \<le> TEST_NUM_SPATIAL_CROPS (cfg (example_ds ''test''))"
    by (simp add: example_ds_def example_cfg_def)
  have d: "TEST_NUM_SPATIAL_CROPS (cfg (example_ds ''test'')) = 1
        \<longrightarrow> DATA_TRAIN_JITTER_SCALES (cfg (example_ds ''test'')) \<noteq> []"
    by (simp add: example_ds_def example_cfg_def)
  have e: "TEST_NUM_SPATIAL_CROPS (cfg (example_ds ''test'')) = 3"
    by (simp add: example_ds_def example_cfg_def)
  from test_sampling_params[OF a b c d, of example_float_ops None] a b c show ?thesis
    by (simp add: e)
qed

text \<open>
  Claim C10. Construction in any mode sets the replica count to 1, so every
  spatial-temporal index of a constructed dataset is 0; hence in test mode, for every
  index the dataset accepts, the temporal sample index is 0 and the spatial sample
  index is 0 with several spatial crops and 1 with one crop.
\<close>

theorem single_clip_per_video:
  assumes "Kinetics_init c m retries fs = Inr ds"
  shows "num_clips ds = Some 1
         \<and> (\<forall>s \<in> set (spatial_temporal_idx ds). s = 0)
         \<and> (m = ''test'' \<and> - len ds \<le> index \<and> index < len ds
              \<and> 1 \<le> TEST_NUM_SPATIAL_CROPS c
              \<and> (TEST_NUM_SPATIAL_CROPS c = 1 \<longrightarrow> DATA_TRAIN_JITTER_SCALES c \<noteq> [])
            \<longrightarrow> (\<exists>p. sampling_params fo ds index short_cycle_idx = Inr p
                   \<and> temporal_sample_index p = 0
                   \<and> spatial_sample_index p = (if TEST_NUM_SPATIAL_CROPS c > 1 then 0 else 1)))"
proof (intro conjI impI)
  note i = Kinetics_init_Inr[OF assms]
  show "num_clips ds = Some 1" by (rule i(5))
  show zero: "\<forall>s \<in> set (spatial_temporal_idx ds). s = 0" by (rule i(8))
  assume h: "m = ''test'' \<and> - len ds \<le> index \<and> index < len ds
      \<and> 1 \<le> TEST_NUM_SPATIAL_CROPS c
      \<and> (TEST_NUM_SPATIAL_CROPS c = 1 \<longrightarrow> DATA_TRAIN_JITTER_SCALES c \<noteq> [])"
  from i(7) have "length (spatial_temporal_idx ds) = length (path_to_videos ds)"
    by (simp add: wf_dataset_def)
  with h have "- int (length (spatial_temporal_idx ds)) \<le> index"
    "index < int (length (spatial_temporal_idx ds))"
    by (simp_all add: len_def)
  from list_getitem_valid[OF this] zero
  have st: "list_getitem (spatial_temporal_idx ds) index = Inr 0" by auto
  from h i(2,3) have "mode ds = ''test''" "1 \<le> TEST_NUM_SPATIAL_CROPS (cfg ds)"
    "TEST_NUM_SPATIAL_CROPS (cfg ds) = 1 \<longrightarrow> DATA_TRAIN_JITTER_SCALES (cfg ds) \<noteq> []"
    by simp_all
  from sampling_params_test[OF this(1) st this(2,3), of fo short_cycle_idx] i(3)
  show "\<exists>p. sampling_params fo ds index short_cycle_idx = Inr p
      \<and> temporal_sample_index p = 0
      \<and> spatial_sample_index p = (if TEST_NUM_SPATIAL_CROPS c > 1 then 0 else 1)"
    by auto
qed


theorem single_clip_per_video_witness:
  "Kinetics_init example_cfg ''test'' 10 example_fs = Inr (example_ds ''test'')
   \<and> num_clips (example_ds ''test'') = Some 1
   \<and> spatial_temporal_idx (example_ds ''test'') = [0, 0]
   \<and> - len (example_ds ''test'') \<le> 1 \<and> 1 < len (example_ds ''test'')
   \<and> 1 \<le> TEST_NUM_SPATIAL_CROPS example_cfg
   \<and> (\<exists>p. sampling_params example_float_ops (example_ds ''test'') 1 None = Inr p
          \<and> temporal_sample_index p = 0 \<and> spatial_sample_index p = 0)"
proof -
  have a: "Kinetics_init example_cfg ''test'' 10 example_fs = Inr (example_ds ''test'')"
    by (rule example_test)
  have b: "- len (example_ds ''test'') \<le> 1 \<and> 1 < len (example_ds ''test'')
      \<and> 1 \<le> TEST_NUM_SPATIAL_CROPS example_cfg
      \<and> (TEST_NUM_SPATIAL_CROPS example_cfg = 1 \<longrightarrow> DATA_TRAIN_JITTER_SCALES example_cfg \<noteq> [])
      \<and> TEST_NUM_SPATIAL_CROPS example_cfg > 1"
    by (simp add: len_def example_ds_def example_cfg_def)
  have c: "spatial_temporal_idx (example_ds ''test'') = [0, 0]"
    by (simp add: example_ds_def)
  from single_clip_per_video[OF a, of 1 example_float_ops None] a b c show ?thesis
    by simp
qed

text \<open>
  Claim C8. In train and val mode the sampling indices are both -1 and the maximal
  scale is the configured one. The crop size is \<open>round(SHORT_CYCLE_FACTORS[k] \<times>
  DEFAULT_S)\<close> when a short-cycle index \<open>k\<close> in \<open>{0, 1}\<close> is supplied and the
  configured crop size otherwise. The minimal scale is \<open>round(min_scale \<times> crop_size /
  DEFAULT_S)\<close>, with the crop size just determined, when \<open>DEFAULT_S > 0\<close>, and the
  configured one otherwise. The float operations are arbitrary.
\<close>

theorem train_sampling_params:
  assumes "mode self \<in> set [''train'', ''val'']"
    and "2 \<le> length (DATA_TRAIN_JITTER_SCALES (cfg self))"
    and "short_cycle_idx \<in> {Some 0, Some 1}
           \<longrightarrow> 2 \<le> length (MULTIGRID_SHORT_CYCLE_FACTORS (cfg self))"
  shows "sampling_params fo self index short_cycle_idx =
     (let c = cfg self;
          S = MULTIGRID_DEFAULT_S c;
          crop = (case short_cycle_idx of
                    None \<Rightarrow> DATA_TRAIN_CROP_SIZE c
                  | Some k \<Rightarrow>
                      if k = 0 \<or> k = 1
                      then float_round fo
                             (float_mul fo (MULTIGRID_SHORT_CYCLE_FACTORS c ! nat k)
                                (float_of_int fo S))
                      else DATA_TRAIN_CROP_SIZE c)
      in Inr \<lparr>temporal_sample_index = - 1, spatial_sample_index = - 1,
               min_scale =
                 (if S > 0
                  then float_round fo
                         (float_div fo
                            (float_mul fo
                               (float_of_int fo (DATA_TRAIN_JITTER_SCALES c ! 0))
                               (float_of_int fo crop))
                            (float_of_int fo S))
                  else DATA_TRAIN_JITTER_SCALES c ! 0),
               max_scale = DATA_TRAIN_JITTER_SCALES c ! 1,
               crop_size = crop\<rparr>)"
proof -
  from assms(1) have m: "mode self = ''train'' \<or> mode self = ''val''" by simp
  from assms(2) have j: "list_getitem (DATA_TRAIN_JITTER_SCALES (cfg self)) 0
        = Inr (DATA_TRAIN_JITTER_SCALES (cfg self) ! 0)"
    "list_getitem (DATA_TRAIN_JITTER_SCALES (cfg self)) 1
        = Inr (DATA_TRAIN_JITTER_SCALES (cfg self) ! 1)"
    by (auto simp: list_getitem_def)
  show ?thesis
  proof (cases short_cycle_idx)
    case None
    with m j show ?thesis
      by (auto simp: sampling_params_def Let_def)
  next
    case (Some k)
    show ?thesis
    proof (cases "k = 0 \<or> k = 1")
      case False
      with Some m j show ?thesis
        by (auto simp: sampling_params_def Let_def)
    next
      case True
      with Some assms(3) have "list_getitem (MULTIGRID_SHORT_CYCLE_FACTORS (cfg self)) k
          = Inr (MULTIGRID_SHORT_CYCLE_FACTORS (cfg self) ! nat k)"
        by (auto simp: list_getitem_def)
      with True Some m j show ?thesis
        by (auto simp: sampling_params_def Let_def)
    qed
  qed
qed

theorem train_sampling_params_witness:
  "mode (example_ds ''train'') \<in> set [''train'', ''val'']
   \<and> 2 \<le> length (DATA_TRAIN_JITTER_SCALES (cfg (example_ds ''train'')))
   \<and> 2 \<le> length (MULTIGRID_SHORT_CYCLE_FACTORS (cfg (example_ds ''train'')))
   \<and> sampling_params example_float_ops (example_ds ''train'') 0 (Some 1) =
       Inr \<lparr>temporal_sample_index = - 1, spatial_sample_index = - 1,
             min_scale = 181, max_scale = 320, crop_size = 158\<rparr>
   \<and> sampling_params example_float_ops (example_ds ''train'') 0 None =
       Inr \<lparr>temporal_sample_index = - 1, spatial_sample_index = - 1,
             min_scale = 256, max_scale = 320, crop_size = 224\<rparr>"
proof -
  have a: "mode (example_ds ''train'') \<in> set [''train'', ''val'']"
    by (simp add: example_ds_def)
  have b: "2 \<le> length (DATA_TRAIN_JITTER_SCALES (cfg (example_ds ''train'')))"
    by (simp add: example_ds_def example_cfg_def)
  have c: "2 \<le> length (MULTIGRID_SHORT_CYCLE_FACTORS (cfg (example_ds ''train'')))"
    by (simp add: example_ds_def example_cfg_def)
  have r1: "round_half_even (7071 * 224 / 10000) = 158"
    by code_simp
  have r2: "round_half_even (256 * 158 / 224) = 181"
    by code_simp
  have r3: "round_half_even (256 * 224 / 224) = 256"
    by code_simp
  from c have c1: "Some 1 \<in> {Some 0, Some (1::int)}
      \<longrightarrow> 2 \<le> length (MULTIGRID_SHORT_CYCLE_FACTORS (cfg (example_ds ''train'')))"
    and c2: "None \<in> {Some 0, Some (1::int)}
      \<longrightarrow> 2 \<le> length (MULTIGRID_SHORT_CYCLE_FACTORS (cfg (example_ds ''train'')))"
    by simp_all
  have "sampling_params example_float_ops (example_ds ''train'') 0 (Some 1) =
       Inr \<lparr>temporal_sample_index = - 1, spatial_sample_index = - 1,
             min_scale = 181, max_scale = 320, crop_size = 158\<rparr>"
    using train_sampling_params[OF a b c1, of example_float_ops 0] r1 r2
    by (simp add: example_ds_def example_cfg_def example_float_ops_def Let_def
        del: round_half_even.simps)
  moreover have "sampling_params example_float_ops (example_ds ''train'') 0 None =
       Inr \<lparr>temporal_sample_index = - 1, spatial_sample_index = - 1,
             min_scale = 256, max_scale = 320, crop_size = 224\<rparr>"
    using train_sampling_params[OF a b c2, of example_float_ops 0] r3
    by (simp add: example_ds_def example_cfg_def example_float_ops_def Let_def
        del: round_half_even.simps)
  ultimately show ?thesis using a b c by simp
qed

section \<open>The retry loop\<close>

lemma attempt_frame:
  assumes "attempt w p rate self i_try index = (r, self')"
  shows "path_to_videos self' = path_to_videos self \<and> labels self' = labels self
         \<and> spatial_temporal_idx self' = spatial_temporal_idx self
         \<and> mode self' = mode self \<and> cfg self' = cfg self
         \<and> num_retries self' = num_retries self \<and> num_clips self' = num_clips self"
  using assms
  by (auto simp: attempt_def Let_def split: sum.splits option.splits prod.splits if_splits)

lemma retry_loop_frame:
  assumes "retry_loop w p rate self index tries = (r, self', evs)"
  shows "path_to_videos self' = path_to_videos self \<and> labels self' = labels self
         \<and> spatial_temporal_idx self' = spatial_temporal_idx self
         \<and> mode self' = mode self \<and> cfg self' = cfg self
         \<and> num_retries self' = num_retries self \<and> num_clips self' = num_clips self"
  using assms
proof (induction tries arbitrary: self index r self' evs)
  case Nil
  then show ?case by simp
next
  case (Cons i_try rest)
  obtain a s1 where at: "attempt w p rate self i_try index = (a, s1)"
    by (cases "attempt w p rate self i_try index")
  note f = attempt_frame[OF at]
  show ?case
  proof (cases a)
    case (Inl e)
    with Cons.prems at f show ?thesis by simp
  next
    case (Inr out)
    show ?thesis
    proof (cases out)
      case (Return it)
      with Inr Cons.prems at f show ?thesis by simp
    next
      case (Continue index' evs0)
      obtain r2 s2 e2 where rl: "retry_loop w p rate s1 index' rest = (r2, s2, e2)"
        by (cases "retry_loop w p rate s1 index' rest")
      with Continue Inr Cons.prems at have "self' = s2" by simp
      with Cons.IH[OF rl] f show ?thesis by simp
    qed
  qed
qed

text \<open>
  Claim C9. A call of \<^verbatim>\<open>__getitem__\<close>, whatever it returns or raises and whatever
  the collaborators do, leaves the sequences of clip paths, labels and
  spatial-temporal indices as they were, so \<^verbatim>\<open>__len__\<close> is the same before and
  after. Only a clip's metadata dictionary, which is handed to the decoder, can
  differ afterwards.
\<close>

theorem getitem_leaves_index_unchanged:
  "(case getitem w fo self idx of
      (r, self', evs) \<Rightarrow>
        path_to_videos self' = path_to_videos self \<and> labels self' = labels self
        \<and> spatial_temporal_idx self' = spatial_temporal_idx self
        \<and> len self' = len self)"
proof -
  obtain index sci where u: "unpack_index idx = (index, sci)"
    by (cases "unpack_index idx")
  show ?thesis
  proof (cases "sampling_params fo self index sci")
    case (Inl e)
    with u show ?thesis by (simp add: getitem_def)
  next
    case (Inr p)
    obtain r self' evs where
      rl: "retry_loop w p
             (get_random_sampling_rate w (MULTIGRID_LONG_CYCLE_SAMPLING_RATE (cfg self))
                (DATA_SAMPLING_RATE (cfg self)))
             self index (py_range (num_retries self)) = (r, self', evs)"
      using prod_cases3 by blast
    from retry_loop_frame[OF rl] rl u Inr show ?thesis
      by (simp add: getitem_def len_def)
  qed
qed

lemma os_path_join_Nil [simp]: "os_path_join a [] = a"
  by (simp add: os_path_join_def)

lemma format_failed_tar: "str_format ''Failed to load tar file from {} with error: {}'' 1 = Inl IndexError"
  by (simp add: str_format_def)

lemma format_failed_video: "str_format ''Failed to load video from {} with error {}'' 2 = Inr ()"
  by (simp add: str_format_def)

lemma format_meta_tar: "str_format ''Failed to meta load tar file from {}; trial {}'' 2 = Inr ()"
  by (simp add: str_format_def)

lemma format_meta_video:
  "str_format ''Failed to meta load video idx {} from {}; trial {}'' 3 = Inr ()"
  by (simp add: str_format_def)

lemma format_decode: "str_format ''Failed to decode {} idx {} from {}; trial {}'' 4 = Inr ()"
  by (simp add: str_format_def)

lemma format_fetch: "str_format ''Failed to fetch video after {} retries.'' 1 = Inr ()"
  by (simp add: str_format_def)

lemma format_failed_tar_Suc:
  "str_format ''Failed to load tar file from {} with error: {}'' (Suc 0) = Inl IndexError"
  by (simp add: str_format_def)

lemma format_fetch_Suc: "str_format ''Failed to fetch video after {} retries.'' (Suc 0) = Inr ()"
  by (simp add: str_format_def)

lemmas format_simps =
  format_failed_tar format_failed_video format_meta_tar format_meta_video format_decode
  format_fetch format_failed_tar_Suc format_fetch_Suc

lemma open_frame_sequence_mismatch:
  assumes "list_getitem (path_to_videos self) index = Inr path"
    and "dict_getitem (video_meta self) index = Inr m"
    and "dict_getitem m ''num_frames'' = Inr declared"
    and "int (length (glob w i_try (path @ ''_*.png''))) \<noteq> declared
         \<or> length (glob w i_try (path @ ''_*.png'')) < 5"
  shows "open_frame_sequence w self i_try index = Inl IndexError"
  using assms by (auto simp: open_frame_sequence_def Let_def format_simps)

text \<open>
  Claim C3 says that in frame-sequence mode a clip whose discovered frame count
  differs from the declared one, or is below 5, is a soft failure that enters the
  retry path. The code raises inside its \<^verbatim>\<open>try\<close> block as the claim expects, but the
  handler formats a message with two replacement fields from one argument, which
  raises IndexError; the attempt and the whole call end with that exception, whatever
  attempts were still to come.
\<close>

theorem frame_count_mismatch_raises:
  assumes "DATA_USE_FRAME_SEQUENCES (cfg self)"
    and "list_getitem (path_to_videos self) index = Inr path"
    and "dict_getitem (video_meta self) index = Inr m"
    and "dict_getitem m ''num_frames'' = Inr declared"
    and "int (length (glob w i_try (path @ ''_*.png''))) \<noteq> declared
         \<or> length (glob w i_try (path @ ''_*.png'')) < 5"
  shows "open_frame_sequence w self i_try index = Inl IndexError
         \<and> attempt w p rate self i_try index = (Inl IndexError, self)
         \<and> retry_loop w p rate self index (i_try # rest)
             = (Inl IndexError, self, [Attempted i_try index])"
proof -
  have o: "open_frame_sequence w self i_try index = Inl IndexError"
    by (rule open_frame_sequence_mismatch[OF assms(2-5)])
  with assms(1) have a: "attempt w p rate self i_try index = (Inl IndexError, self)"
    by (simp add: attempt_def Let_def)
  from o a show ?thesis by simp
qed

lemmas world_defs = example_world_def failing_world_def example_float_ops_def

theorem frame_count_mismatch_raises_witness:
  "DATA_USE_FRAME_SEQUENCES (cfg example_seq_ds)
   \<and> list_getitem (path_to_videos example_seq_ds) 0
        = Inr ''videos/BharatDSL_dataset/train/hello/s1''
   \<and> dict_getitem (video_meta example_seq_ds) 0 = Inr [(''num_frames'', 8)]
   \<and> dict_getitem [(''num_frames'', 8)] ''num_frames'' = Inr (8::int)
   \<and> length (glob example_world 0 (''videos/BharatDSL_dataset/train/hello/s1'' @ ''_*.png'')) = 7
   \<and> open_frame_sequence example_world example_seq_ds 0 0 = Inl IndexError
   \<and> retry_loop example_world example_params 8 example_seq_ds 0 [0, 1, 2]
        = (Inl IndexError, example_seq_ds, [Attempted 0 0])"
proof -
  have a: "DATA_USE_FRAME_SEQUENCES (cfg example_seq_ds)"
    by (simp add: example_seq_ds_def example_seq_cfg_def example_cfg_def)
  have b: "list_getitem (path_to_videos example_seq_ds) 0
        = Inr ''videos/BharatDSL_dataset/train/hello/s1''"
    by (simp add: example_seq_ds_def list_getitem_def)
  have c: "dict_getitem (video_meta example_seq_ds) 0 = Inr [(''num_frames'', 8)]"
    by (simp add: example_seq_ds_def dict_getitem_def)
  have d: "dict_getitem [(''num_frames'', 8)] ''num_frames'' = Inr (8::int)"
    by (simp add: dict_getitem_def)
  have e: "length (glob example_world 0 (''videos/BharatDSL_dataset/train/hello/s1'' @ ''_*.png'')) = 7"
    by (simp add: example_world_def)
  then have f: "int (length (glob example_world 0
        (''videos/BharatDSL_dataset/train/hello/s1'' @ ''_*.png''))) \<noteq> 8
      \<or> length (glob example_world 0
        (''videos/BharatDSL_dataset/train/hello/s1'' @ ''_*.png'')) < 5"
    by simp
  from frame_count_mismatch_raises[OF a b c d f, of example_params 8 "[1, 2]"] a b c d e
  show ?thesis by (simp del: retry_loop.simps)
qed


lemmas getitem_defs =
  getitem_def unpack_index_def sampling_params_def attempt_def open_frame_sequence_def
  open_video_def after_decode_def finish_def try_another_def py_randint_def permute_def
  tensor_normalize_def spatial_sampling_def list_getitem_def dict_getitem_def
  dict_setitem_def py_range_def py_floordiv_def py_mod_def

text \<open>
  Claim C1 says that in train mode a call whose attempts all fail makes exactly
  \<open>num_retries\<close> attempts and then raises the exhaustion error. At a frame-sequence
  dataset built from a manifest, in a world where no clip has the declared number of
  frames, the call with a budget of 10 makes one attempt and raises IndexError.
\<close>

theorem train_frame_sequence_open_failure:
  "Kinetics_init example_seq_cfg ''train'' 10 example_fs = Inr example_seq_ds
   \<and> getitem failing_world example_float_ops example_seq_ds (Plain 0)
        = (Inl IndexError, example_seq_ds, [Attempted 0 0])"
proof -
  have "getitem failing_world example_float_ops example_seq_ds (Plain 0)
        = (Inl IndexError, example_seq_ds, [Attempted 0 0])"
    by (simp add: getitem_defs world_defs example_seq_ds_def example_seq_cfg_def
        example_cfg_def format_simps Let_def upt_rec[of 0 "n" for n])
  with example_seq_train show ?thesis by simp
qed

text \<open>
  Claim C2 says that in test mode a call whose attempts all fail raises the
  exhaustion error after \<open>num_retries\<close> attempts on the requested index. At a
  frame-sequence dataset built from a manifest, in a world where no clip has the
  declared number of frames, the call with a budget of 10 makes one attempt and raises
  IndexError.
\<close>

theorem test_frame_sequence_open_failure:
  "Kinetics_init example_seq_cfg ''test'' 10 example_fs = Inr example_seq_test_ds
   \<and> getitem failing_world example_float_ops example_seq_test_ds (Plain 0)
        = (Inl IndexError, example_seq_test_ds, [Attempted 0 0])"
proof -
  have "getitem failing_world example_float_ops example_seq_test_ds (Plain 0)
        = (Inl IndexError, example_seq_test_ds, [Attempted 0 0])"
    by (simp add: getitem_defs world_defs example_seq_test_ds_def example_seq_cfg_def
        example_cfg_def format_simps Let_def upt_rec[of 0 "n" for n])
  with example_seq_test show ?thesis by simp
qed

subsection \<open>Exhaustion in video mode\<close>

text \<open>
  In video mode the retry loop behaves as designed. When no attempt yields frames
  (a container that opens is never decoded), the loop runs every attempt number it
  is given and ends with RuntimeError; an index is replaced only outside test mode
  and only at an attempt number above half the budget, by a draw of
  \<^verbatim>\<open>random.randint(0, len - 1)\<close>; in test mode every attempt targets the requested
  index.
\<close>

lemma attempts_append: "attempts (xs @ ys) = attempts xs @ attempts ys"
  by (induction xs rule: attempts.induct) simp_all

lemma substitutions_append: "substitutions (xs @ ys) = substitutions xs @ substitutions ys"
  by (induction xs rule: substitutions.induct) simp_all

lemma try_another_cases:
  assumes "0 < length (path_to_videos self)"
  shows "\<exists>index' evs. try_another w self t index = Inr (Continue index' evs)
           \<and> (if mode self \<noteq> ''test'' \<and> num_retries self div 2 < t
               then evs = [Substituted t index' 0 (len self - 1)]
                    \<and> 0 \<le> index' \<and> index' < len self
               else evs = [] \<and> index' = index)"
proof (cases "mode self \<noteq> ''test'' \<and> num_retries self div 2 < t")
  case True
  define n where "n = length (path_to_videos self)"
  define j where "j = int (random_source w t mod nat (int n - 1 + 1))"
  from assms have "0 < n" by (simp add: n_def)
  then have "0 \<le> j" "j < int n"
    by (simp_all add: j_def)
  moreover from True \<open>0 < n\<close> have
    "try_another w self t index = Inr (Continue j [Substituted t j 0 (int n - 1)])"
    by (simp add: try_another_def py_randint_def n_def j_def)
  ultimately show ?thesis using True
    by (simp add: len_def n_def)
next
  case False
  then have "try_another w self t index = Inr (Continue index [])"
    by (auto simp: try_another_def)
  with False show ?thesis by simp
qed

lemma wf_dataset_set_meta:
  assumes "wf_dataset self" and "\<not> DATA_USE_FRAME_SEQUENCES (cfg self)"
  shows "wf_dataset (self\<lparr>video_meta := dict_setitem (video_meta self) k m\<rparr>)"
  using assms
  by (auto simp: wf_dataset_def has_meta_def dict_setitem_def update_conv split: option.splits)

lemma wf_dataset_meta:
  assumes "wf_dataset self" and "0 \<le> index" and "index < len self"
  shows "\<exists>m. dict_getitem (video_meta self) index = Inr m
           \<and> (DATA_USE_FRAME_SEQUENCES (cfg self)
                \<longrightarrow> (\<exists>v. dict_getitem m ''num_frames'' = Inr v))"
  using assms
  by (auto simp: wf_dataset_def has_meta_def dict_getitem_def len_def split: option.splits)


lemma video_attempt_fails:
  assumes nseq: "\<not> DATA_USE_FRAME_SEQUENCES (cfg self)"
    and wf: "wf_dataset self" and idx: "0 \<le> index" "index < len self"
    and fail: "\<forall>path a b vc r n ti v m f be ms.
        get_video_container w t path a b = Some vc
        \<longrightarrow> fst (decode w t vc r n ti v m f be ms) = None"
  shows "\<exists>self' index' evs.
           attempt w p rate self t index = (Inr (Continue index' evs), self')
           \<and> wf_dataset self'
           \<and> (if mode self \<noteq> ''test'' \<and> num_retries self div 2 < t
               then evs = [Substituted t index' 0 (len self - 1)]
                    \<and> 0 \<le> index' \<and> index' < len self
               else evs = [] \<and> index' = index)"
proof -
  from idx have pos: "0 < length (path_to_videos self)" by (auto simp: len_def)
  from idx have path: "list_getitem (path_to_videos self) index
      = Inr (path_to_videos self ! nat index)"
    by (simp add: list_getitem_def len_def)
  show ?thesis
  proof (cases "get_video_container w t (path_to_videos self ! nat index)
      (DATA_LOADER_ENABLE_MULTI_THREAD_DECODE (cfg self)) (DATA_DECODING_BACKEND (cfg self))")
    case None
    with path have "open_video w self t index = Inr None"
      by (simp add: open_video_def format_simps)
    with nseq path have "attempt w p rate self t index = (try_another w self t index, self)"
      by (simp add: attempt_def Let_def format_simps)
    with try_another_cases[OF pos, of w t index] wf show ?thesis
      by auto
  next
    case (Some vc)
    with path have ov: "open_video w self t index = Inr (Some vc)"
      by (simp add: open_video_def)
    from wf_dataset_meta[OF wf idx] obtain m where
      m: "dict_getitem (video_meta self) index = Inr m" by blast
    define res where "res = decode w t vc rate (DATA_NUM_FRAMES (cfg self))
      (temporal_sample_index p) (TEST_NUM_ENSEMBLE_VIEWS (cfg self)) m
      (DATA_TARGET_FPS (cfg self)) (DATA_DECODING_BACKEND (cfg self)) (min_scale p)"
    from fail Some have "fst res = None" unfolding res_def by blast
    then obtain m' where res: "res = (None, m')" by (cases res) auto
    define self' where
      "self' = self\<lparr>video_meta := dict_setitem (video_meta self) index m'\<rparr>"
    have wf': "wf_dataset self'"
      unfolding self'_def by (rule wf_dataset_set_meta[OF wf nseq])
    have same: "path_to_videos self' = path_to_videos self" "mode self' = mode self"
      "num_retries self' = num_retries self" "len self' = len self"
      by (simp_all add: self'_def len_def)
    from path same have "after_decode w p self' t index None = try_another w self' t index"
      by (simp add: after_decode_def format_simps)
    with nseq ov m res have
      "attempt w p rate self t index = (try_another w self' t index, self')"
      by (simp add: attempt_def Let_def res_def[symmetric] self'_def)
    moreover from pos same have "0 < length (path_to_videos self')" by simp
    from try_another_cases[OF this, of w t index] same
    have "\<exists>index' evs. try_another w self' t index = Inr (Continue index' evs)
           \<and> (if mode self \<noteq> ''test'' \<and> num_retries self div 2 < t
               then evs = [Substituted t index' 0 (len self - 1)]
                    \<and> 0 \<le> index' \<and> index' < len self
               else evs = [] \<and> index' = index)"
      by (simp cong: if_cong)
    ultimately show ?thesis using wf' by auto
  qed
qed

lemma video_retry_loop_exhausts:
  assumes nseq: "\<not> DATA_USE_FRAME_SEQUENCES (cfg self)"
    and wf: "wf_dataset self" and idx: "0 \<le> index" "index < len self"
    and fail: "\<forall>t path a b vc r n ti v m f be ms.
        get_video_container w t path a b = Some vc
        \<longrightarrow> fst (decode w t vc r n ti v m f be ms) = None"
  shows "\<exists>self' evs.
           retry_loop w p rate self index tries = (Inl RuntimeError, self', evs)
           \<and> map fst (attempts evs) = tries
           \<and> (\<forall>(t, j, lo, hi) \<in> set (substitutions evs).
                 mode self \<noteq> ''test'' \<and> num_retries self div 2 < t \<and> t \<in> set tries
                 \<and> lo = 0 \<and> hi = len self - 1 \<and> 0 \<le> j \<and> j < len self)
           \<and> (mode self = ''test'' \<longrightarrow> (\<forall>(t, j) \<in> set (attempts evs). j = index))"
  using nseq wf idx
proof (induction tries arbitrary: self index)
  case Nil
  then show ?case by (simp add: format_simps)
next
  case (Cons t tries)
  from fail have ft: "\<forall>path a b vc r n ti v m f be ms.
        get_video_container w t path a b = Some vc
        \<longrightarrow> fst (decode w t vc r n ti v m f be ms) = None"
    by blast
  from video_attempt_fails[where t = t and p = p and rate = rate, OF Cons.prems(1-4) ft]
  obtain s1 index' evs0 where
    at: "attempt w p rate self t index = (Inr (Continue index' evs0), s1)"
    and wf1: "wf_dataset s1"
    and ev: "if mode self \<noteq> ''test'' \<and> num_retries self div 2 < t
             then evs0 = [Substituted t index' 0 (len self - 1)]
                  \<and> 0 \<le> index' \<and> index' < len self
             else evs0 = [] \<and> index' = index"
    by blast
  note f = attempt_frame[OF at]
  from f have same: "mode s1 = mode self" "num_retries s1 = num_retries self"
    "len s1 = len self" "cfg s1 = cfg self"
    by (simp_all add: len_def)
  from ev Cons.prems(3,4) have idx1: "0 \<le> index'" "index' < len s1"
    by (auto simp: same split: if_splits)
  from Cons.prems(1) same have nseq1: "\<not> DATA_USE_FRAME_SEQUENCES (cfg s1)" by simp
  from Cons.IH[OF nseq1 wf1 idx1] obtain s2 evs1 where
    rl: "retry_loop w p rate s1 index' tries = (Inl RuntimeError, s2, evs1)"
    and a1: "map fst (attempts evs1) = tries"
    and s1: "\<forall>(t, j, lo, hi) \<in> set (substitutions evs1).
                 mode s1 \<noteq> ''test'' \<and> num_retries s1 div 2 < t \<and> t \<in> set tries
                 \<and> lo = 0 \<and> hi = len s1 - 1 \<and> 0 \<le> j \<and> j < len s1"
    and t1: "mode s1 = ''test'' \<longrightarrow> (\<forall>(t, j) \<in> set (attempts evs1). j = index')"
    by blast
  from at rl have res: "retry_loop w p rate self index (t # tries)
      = (Inl RuntimeError, s2, Attempted t index # evs0 @ evs1)"
    by simp
  show ?case
  proof (cases "mode self \<noteq> ''test'' \<and> num_retries self div 2 < t")
    case True
    with ev have e0: "evs0 = [Substituted t index' 0 (len self - 1)]"
      and j: "0 \<le> index'" "index' < len self" by simp_all
    have A: "map fst (attempts (Attempted t index # evs0 @ evs1)) = t # tries"
      using a1 by (simp add: e0)
    have B: "\<forall>(t', j, lo, hi) \<in> set (substitutions (Attempted t index # evs0 @ evs1)).
        mode self \<noteq> ''test'' \<and> num_retries self div 2 < t' \<and> t' \<in> set (t # tries)
        \<and> lo = 0 \<and> hi = len self - 1 \<and> 0 \<le> j \<and> j < len self"
      using s1 True j unfolding e0 same by auto
    have C: "mode self = ''test'' \<longrightarrow>
        (\<forall>(t', j) \<in> set (attempts (Attempted t index # evs0 @ evs1)). j = index)"
      using True by simp
    show ?thesis
      by (intro exI[of _ s2] exI[of _ "Attempted t index # evs0 @ evs1"] conjI res A B C)
  next
    case False
    with ev have e0: "evs0 = []" and j: "index' = index" by simp_all
    have A: "map fst (attempts (Attempted t index # evs0 @ evs1)) = t # tries"
      using a1 by (simp add: e0)
    have B: "\<forall>(t', j, lo, hi) \<in> set (substitutions (Attempted t index # evs0 @ evs1)).
        mode self \<noteq> ''test'' \<and> num_retries self div 2 < t' \<and> t' \<in> set (t # tries)
        \<and> lo = 0 \<and> hi = len self - 1 \<and> 0 \<le> j \<and> j < len self"
      using s1 unfolding e0 same by auto
    have C: "mode self = ''test'' \<longrightarrow>
        (\<forall>(t', j) \<in> set (attempts (Attempted t index # evs0 @ evs1)). j = index)"
      using t1 unfolding e0 same j by auto
    show ?thesis
      by (intro exI[of _ s2] exI[of _ "Attempted t index # evs0 @ evs1"] conjI res A B C)
  qed
qed

lemma half_less: "(n::int) div 2 < t \<Longrightarrow> n < 2 * t"
  by presburger

lemma video_getitem_exhausts:
  assumes nseq: "\<not> DATA_USE_FRAME_SEQUENCES (cfg self)"
    and wf: "wf_dataset self" and idx: "0 \<le> index" "index < len self"
    and u: "unpack_index idx = (index, short_cycle_idx)"
    and sp: "sampling_params fo self index short_cycle_idx = Inr p"
    and fail: "\<forall>t path a b vc r n ti v m f be ms.
        get_video_container w t path a b = Some vc
        \<longrightarrow> fst (decode w t vc r n ti v m f be ms) = None"
  shows "\<exists>self' evs.
           getitem w fo self idx = (Inl RuntimeError, self', evs)
           \<and> map fst (attempts evs) = py_range (num_retries self)
           \<and> length (attempts evs) = nat (num_retries self)
           \<and> (\<forall>(t, j, lo, hi) \<in> set (substitutions evs).
                 mode self \<noteq> ''test'' \<and> num_retries self < 2 * t
                 \<and> lo = 0 \<and> hi = len self - 1 \<and> 0 \<le> j \<and> j < len self)
           \<and> (mode self = ''test'' \<longrightarrow> (\<forall>(t, j) \<in> set (attempts evs). j = index))"
proof -
  define rate where "rate = get_random_sampling_rate w
    (MULTIGRID_LONG_CYCLE_SAMPLING_RATE (cfg self)) (DATA_SAMPLING_RATE (cfg self))"
  have "\<exists>self' evs.
           retry_loop w p rate self index (py_range (num_retries self))
             = (Inl RuntimeError, self', evs)
           \<and> map fst (attempts evs) = py_range (num_retries self)
           \<and> (\<forall>(t, j, lo, hi) \<in> set (substitutions evs).
                 mode self \<noteq> ''test'' \<and> num_retries self div 2 < t
                 \<and> t \<in> set (py_range (num_retries self))
                 \<and> lo = 0 \<and> hi = len self - 1 \<and> 0 \<le> j \<and> j < len self)
           \<and> (mode self = ''test'' \<longrightarrow> (\<forall>(t, j) \<in> set (attempts evs). j = index))"
    by (rule video_retry_loop_exhausts[OF nseq wf idx fail])
  then obtain self' evs where
    rl: "retry_loop w p rate self index (py_range (num_retries self))
           = (Inl RuntimeError, self', evs)"
    and a: "map fst (attempts evs) = py_range (num_retries self)"
    and s: "\<forall>(t, j, lo, hi) \<in> set (substitutions evs).
                 mode self \<noteq> ''test'' \<and> num_retries self div 2 < t
                 \<and> t \<in> set (py_range (num_retries self))
                 \<and> lo = 0 \<and> hi = len self - 1 \<and> 0 \<le> j \<and> j < len self"
    and t: "mode self = ''test'' \<longrightarrow> (\<forall>(t, j) \<in> set (attempts evs). j = index)"
    by (elim exE conjE)
  from u sp rl have g: "getitem w fo self idx = (Inl RuntimeError, self', evs)"
    by (simp add: getitem_def rate_def)
  have "length (attempts evs) = length (map fst (attempts evs))" by simp
  also have "\<dots> = nat (num_retries self)" unfolding a by simp
  finally have l: "length (attempts evs) = nat (num_retries self)" .
  have s': "\<forall>(t, j, lo, hi) \<in> set (substitutions evs).
                 mode self \<noteq> ''test'' \<and> num_retries self < 2 * t
                 \<and> lo = 0 \<and> hi = len self - 1 \<and> 0 \<le> j \<and> j < len self"
  proof (rule ballI)
    fix x
    assume m: "x \<in> set (substitutions evs)"
    obtain t j lo hi where x: "x = (t, j, lo, hi)" by (cases x)
    from s m x have h: "mode self \<noteq> ''test''" "num_retries self div 2 < t"
      "lo = 0" "hi = len self - 1" "0 \<le> j" "j < len self"
      by fastforce+
    from h(2) have "num_retries self < 2 * t" by (rule half_less)
    with h x show "case x of (t, j, lo, hi) \<Rightarrow>
        mode self \<noteq> ''test'' \<and> num_retries self < 2 * t
        \<and> lo = 0 \<and> hi = len self - 1 \<and> 0 \<le> j \<and> j < len self"
      by simp
  qed
  show ?thesis
    by (intro exI[of _ self'] exI[of _ evs] conjI g a l s' t)
qed

lemma failing_world_never_decodes:
  "\<forall>t path a b vc r n ti v m f be ms.
      get_video_container failing_world t path a b = Some vc
      \<longrightarrow> fst (decode failing_world t vc r n ti v m f be ms) = None"
  by (simp add: failing_world_def example_world_def)

lemma example_ds_wf: "wf_dataset (example_ds m)"
  by (auto simp: wf_dataset_def has_meta_def example_ds_def example_cfg_def)

lemma round_256: "round_half_even (256 * 224 / 224) = 256"
  by code_simp

lemma example_train_params:
  "sampling_params example_float_ops (example_ds ''train'') 0 None = Inr example_params"
  using round_256
  by (simp add: sampling_params_def example_ds_def example_cfg_def example_float_ops_def
      example_params_def list_getitem_def Let_def del: round_half_even.simps)

lemma example_video_exhaustion:
  "\<exists>self' evs.
      getitem failing_world example_float_ops (example_ds ''train'') (Plain 0)
        = (Inl RuntimeError, self', evs)
      \<and> length (attempts evs) = 10"
proof -
  have a: "\<not> DATA_USE_FRAME_SEQUENCES (cfg (example_ds ''train''))"
    by (simp add: example_ds_def example_cfg_def)
  have b: "0 \<le> (0::int)" "0 < len (example_ds ''train'')"
    by (simp_all add: len_def example_ds_def)
  have c: "unpack_index (Plain 0) = (0, None)" by (simp add: unpack_index_def)
  note d = example_train_params
  have e: "nat (num_retries (example_ds ''train'')) = 10"
    by (simp add: example_ds_def)
  from video_getitem_exhausts[OF a example_ds_wf b c d failing_world_never_decodes]
  show ?thesis unfolding e by blast
qed

end
